theory Spec2Isabelle
  imports Main "HOL-Library.List_Lexorder" "HOL-Library.Char_ord"
begin

section \<open>Data model (reservas/models.py)\<close>

text \<open>
  The four Django models are records; each table is the list of its rows in insertion
  order, and the database is a record of the four tables, the next value of each
  auto-increment key and the server clock: \<open>reloj\<close> is the instant the next
  \<open>timezone.now()\<close> of a save returns, one tick later after every save, and \<open>hoy\<close> is the
  date \<open>timezone.now().date()\<close> shows. Dates are day numbers. A foreign key is the id it
  stores; the nullable room of a reservation is an option. The two timestamps of a
  reservation are \<open>None\<close> in an object that was never saved. Notes, photos and addresses
  take part in no rule and are left out.
\<close>

datatype estado = Pendiente | Confirmada | Cancelada | Rechazada | Completada

record hotel =
  hotel_id :: nat
  hotel_nombre :: string
  cantidad_habitaciones :: int
  generar_habitaciones_auto :: bool

record habitacion =
  hab_id :: nat
  hab_hotel :: nat
  numero :: string
  cantidad_plazas :: int

record huesped =
  hue_id :: nat
  nombre :: string
  email :: string
  telefono :: string

record reserva =
  pk :: "nat option"
  huesped_id :: nat
  fecha_reserva :: int
  cantidad_personas :: int
  habitacion_id :: "nat option"
  estado :: estado
  fecha_creacion :: "nat option"
  fecha_modificacion :: "nat option"

record db =
  hoteles :: "hotel list"
  habitaciones :: "habitacion list"
  huespedes :: "huesped list"
  reservas :: "reserva list"
  sig_habitacion :: nat
  sig_huesped :: nat
  sig_reserva :: nat
  hoy :: int
  reloj :: nat

text \<open>
  Exceptions and early exits are values. \<open>InformacionIncompleta\<close> is the redirect of
  \<open>completar_reserva\<close> when a session value is missing or falsy.
\<close>

datatype error =
    ValueError
  | DoesNotExist
  | MultipleObjectsReturned
  | AttributeError
  | Http404
  | InformacionIncompleta

text \<open>
  The texts the functions return or show to the user, one constructor for each literal
  of the source, with the values its f-string interpolates.
\<close>

datatype mensaje =
    NoHayHabitacionesDisponibles
  | HabitacionSeleccionadaNoDisponible
  | ReservaCreadaExitosamente
  | NuevaHabitacionNoDisponible
  | HabitacionSinCapacidad
  | HabitacionCambiadaExitosamente
  | ErrorMsg error
  | NoSePuedeConfirmar nat
  | ReservaError nat error
  | ReservaConfirmadaMsg "nat option"
  | ReservaCanceladaMsg "nat option"
  | HabitacionNoDisponibleHayAlternativas string nat
  | NoHayHabitacionesEnHotel nat int
  | HabitacionCambiadaA string
  | ReservaSinHotel

section \<open>Query helpers\<close>

text \<open>\<open>Model.objects.get\<close>: exactly one matching row, or an exception.\<close>

definition objects_get :: "('a \<Rightarrow> bool) \<Rightarrow> 'a list \<Rightarrow> error + 'a" where
  "objects_get P xs =
     (case filter P xs of
        [] \<Rightarrow> Inl DoesNotExist
      | [x] \<Rightarrow> Inr x
      | _ \<Rightarrow> Inl MultipleObjectsReturned)"

text \<open>Python's truth value of an optional integer id: \<open>None\<close> and \<open>0\<close> are false.\<close>

definition truthy :: "nat option \<Rightarrow> bool" where
  "truthy v = (case v of None \<Rightarrow> False | Some i \<Rightarrow> i \<noteq> 0)"

text \<open>\<open>str(i)\<close> of a Python integer, in decimal.\<close>

fun str_nat :: "nat \<Rightarrow> string" where
  "str_nat n =
     (if n < 10 then [''0123456789'' ! n]
      else str_nat (n div 10) @ [''0123456789'' ! (n mod 10)])"

definition str :: "int \<Rightarrow> string" where
  "str i = (if i < 0 then CHR ''-'' # str_nat (nat (- i)) else str_nat (nat i))"

section \<open>Hotel and Habitacion\<close>

text \<open>
  \<open>hotel.habitacion_set\<close>: the rooms of the hotel in the default order of
  \<open>Habitacion.Meta\<close>, \<open>['hotel', 'numero']\<close>; inside one hotel that is the room number,
  a character field, so the order is the one of strings.
\<close>

definition habitacion_set :: "db \<Rightarrow> nat \<Rightarrow> habitacion list" where
  "habitacion_set d h = sort_key numero (filter (\<lambda>hb. hab_hotel hb = h) (habitaciones d))"

definition esta_disponible :: "db \<Rightarrow> nat \<Rightarrow> int \<Rightarrow> bool" where
  "esta_disponible d hab fecha =
     (\<not> (\<exists>r \<in> set (reservas d).
            habitacion_id r = Some hab \<and> fecha_reserva r = fecha \<and>
            estado r \<in> set [Confirmada, Pendiente]))"

text \<open>
  The subquery of \<open>habitaciones_disponibles\<close>: \<open>habitacion__hotel=self\<close> joins each
  reservation with its room.
\<close>

definition habitaciones_reservadas :: "db \<Rightarrow> nat \<Rightarrow> int \<Rightarrow> nat list" where
  "habitaciones_reservadas d h fecha =
     [hab_id hb. r \<leftarrow> reservas d, hb \<leftarrow> habitaciones d,
        fecha_reserva r = fecha, estado r \<in> set [Confirmada, Pendiente],
        habitacion_id r = Some (hab_id hb), hab_hotel hb = h]"

definition habitaciones_disponibles :: "db \<Rightarrow> nat \<Rightarrow> int option \<Rightarrow> habitacion list" where
  "habitaciones_disponibles d h fecha_opt =
     (let fecha = (case fecha_opt of None \<Rightarrow> hoy d | Some f \<Rightarrow> f)
      in filter (\<lambda>hb. hab_id hb \<notin> set (habitaciones_reservadas d h fecha))
           (habitacion_set d h))"

text \<open>
  \<open>Habitacion.objects.create\<close> inside \<open>generar_habitaciones\<close>. \<open>random.choice\<close> is the
  element at the index the generator draws; \<open>azar i\<close> is the number drawn in iteration
  \<open>i\<close>, reduced to the length of the list. The constraint \<open>unique_together\<close> of hotel and
  number is not part of the model: the loop inserts only into a hotel without rooms.
\<close>

definition random_choice :: "nat \<Rightarrow> 'a list \<Rightarrow> 'a" where
  "random_choice k xs = xs ! (k mod length xs)"

definition habitacion_create :: "db \<Rightarrow> nat \<Rightarrow> string \<Rightarrow> int \<Rightarrow> db" where
  "habitacion_create d h num plazas =
     d\<lparr>habitaciones := habitaciones d @
          [\<lparr>hab_id = sig_habitacion d, hab_hotel = h, numero = num, cantidad_plazas = plazas\<rparr>],
       sig_habitacion := Suc (sig_habitacion d)\<rparr>"

definition tipos_plazas :: "int list" where
  "tipos_plazas = [1, 2, 2, 3, 4]"

definition generar_paso :: "(int \<Rightarrow> nat) \<Rightarrow> nat \<Rightarrow> db \<times> int \<Rightarrow> int \<Rightarrow> db \<times> int" where
  "generar_paso azar h s i =
     (let numero = str i;
          plazas = random_choice (azar i) tipos_plazas
      in (habitacion_create (fst s) h numero plazas, snd s + 1))"

definition generar_habitaciones :: "(int \<Rightarrow> nat) \<Rightarrow> db \<Rightarrow> hotel \<Rightarrow> db \<times> int" where
  "generar_habitaciones azar d self =
     (if \<exists>hb \<in> set (habitaciones d). hab_hotel hb = hotel_id self
      then (d, int (length (filter (\<lambda>hb. hab_hotel hb = hotel_id self) (habitaciones d))))
      else foldl (generar_paso azar (hotel_id self)) (d, 0) [1..cantidad_habitaciones self])"

section \<open>Reserva\<close>

text \<open>
  \<open>super().save()\<close>: an object without key is inserted under the next key; an object
  with a key updates the rows of that key, and is inserted under it when there is none.
  Every save stamps \<open>fecha_modificacion\<close> (\<open>auto_now\<close>) and an insert stamps
  \<open>fecha_creacion\<close> too (\<open>auto_now_add\<close>), with the instant of the clock, which then
  advances. The saved object is returned with its key and stamps.
\<close>

definition model_save :: "db \<Rightarrow> reserva \<Rightarrow> db \<times> reserva" where
  "model_save d r =
     (case pk r of
        None \<Rightarrow>
          (let r' = r\<lparr>pk := Some (sig_reserva d), fecha_creacion := Some (reloj d),
                      fecha_modificacion := Some (reloj d)\<rparr>
           in (d\<lparr>reservas := reservas d @ [r'], sig_reserva := Suc (sig_reserva d),
                  reloj := Suc (reloj d)\<rparr>, r'))
      | Some i \<Rightarrow>
          if \<exists>x \<in> set (reservas d). pk x = Some i
          then (let r' = r\<lparr>fecha_modificacion := Some (reloj d)\<rparr>
                in (d\<lparr>reservas := map (\<lambda>x. if pk x = Some i then r' else x) (reservas d),
                       reloj := Suc (reloj d)\<rparr>, r'))
          else (let r' = r\<lparr>fecha_creacion := Some (reloj d),
                           fecha_modificacion := Some (reloj d)\<rparr>
                in (d\<lparr>reservas := reservas d @ [r'],
                       sig_reserva := max (sig_reserva d) (Suc i),
                       reloj := Suc (reloj d)\<rparr>, r')))"

text \<open>\<open>Reserva.save\<close>: the conflict check runs only for a confirmed object that has a key and a room.\<close>

definition reservas_conflictivas :: "db \<Rightarrow> reserva \<Rightarrow> reserva list" where
  "reservas_conflictivas d self =
     filter (\<lambda>x. pk x \<noteq> pk self)
       (filter (\<lambda>x. habitacion_id x = habitacion_id self \<and>
                    fecha_reserva x = fecha_reserva self \<and>
                    estado x \<in> set [Confirmada, Pendiente]) (reservas d))"

definition save :: "db \<Rightarrow> reserva \<Rightarrow> error + db \<times> reserva" where
  "save d self =
     (if estado self = Confirmada \<and> truthy (pk self) \<and> habitacion_id self \<noteq> None
      then (if reservas_conflictivas d self \<noteq> [] then Inl ValueError
            else Inr (model_save d self))
      else Inr (model_save d self))"

text \<open>\<open>Reserva.objects.create\<close>: builds the object without key and calls \<open>save\<close>.\<close>

definition reserva_create ::
  "db \<Rightarrow> nat \<Rightarrow> int \<Rightarrow> int \<Rightarrow> nat option \<Rightarrow> estado \<Rightarrow> error + db \<times> reserva" where
  "reserva_create d hu fecha personas hab e =
     save d \<lparr>pk = None, huesped_id = hu, fecha_reserva = fecha, cantidad_personas = personas,
             habitacion_id = hab, estado = e, fecha_creacion = None,
             fecha_modificacion = None\<rparr>"

definition get_reserva :: "db \<Rightarrow> nat \<Rightarrow> error + reserva" where
  "get_reserva d i = objects_get (\<lambda>r. pk r = Some i) (reservas d)"

definition get_habitacion :: "db \<Rightarrow> nat \<Rightarrow> error + habitacion" where
  "get_habitacion d i = objects_get (\<lambda>hb. hab_id hb = i) (habitaciones d)"

definition puede_confirmar :: "db \<Rightarrow> reserva \<Rightarrow> bool" where
  "puede_confirmar d self =
     (case habitacion_id self of
        None \<Rightarrow> False
      | Some hab \<Rightarrow> esta_disponible d hab (fecha_reserva self) \<and> estado self = Pendiente)"

definition puede_cancelar :: "reserva \<Rightarrow> bool" where
  "puede_cancelar self = (estado self \<in> set [Pendiente, Confirmada])"

section \<open>Convenience functions (models.py)\<close>

definition crear_reserva_desde_admin ::
  "db \<Rightarrow> nat \<Rightarrow> int \<Rightarrow> int \<Rightarrow> nat \<Rightarrow> nat option \<Rightarrow> db \<times> reserva option \<times> mensaje" where
  "crear_reserva_desde_admin d hu_id fecha personas h_id hab_opt =
     (case objects_get (\<lambda>h. hue_id h = hu_id) (huespedes d) of
        Inl e \<Rightarrow> (d, None, ErrorMsg e)
      | Inr hu \<Rightarrow>
     (case objects_get (\<lambda>h. hotel_id h = h_id) (hoteles d) of
        Inl e \<Rightarrow> (d, None, ErrorMsg e)
      | Inr hot \<Rightarrow>
     (case (if truthy hab_opt
            then (case get_habitacion d (the hab_opt) of
                    Inl e \<Rightarrow> Inl (ErrorMsg e)
                  | Inr hb \<Rightarrow> Inr hb)
            else (case filter (\<lambda>hb. cantidad_plazas hb \<ge> personas)
                         (habitaciones_disponibles d (hotel_id hot) (Some fecha)) of
                    [] \<Rightarrow> Inl NoHayHabitacionesDisponibles
                  | hb # _ \<Rightarrow> Inr hb)) of
        Inl m \<Rightarrow> (d, None, m)
      | Inr hb \<Rightarrow>
          if \<not> esta_disponible d (hab_id hb) fecha
          then (d, None, HabitacionSeleccionadaNoDisponible)
          else (case reserva_create d (hue_id hu) fecha personas (Some (hab_id hb)) Confirmada of
                  Inl e \<Rightarrow> (d, None, ErrorMsg e)
                | Inr (d', r) \<Rightarrow> (d', Some r, ReservaCreadaExitosamente)))))"

definition cambiar_habitacion_reserva :: "db \<Rightarrow> nat \<Rightarrow> nat \<Rightarrow> db \<times> bool \<times> mensaje" where
  "cambiar_habitacion_reserva d reserva_id nueva_habitacion_id =
     (case get_reserva d reserva_id of
        Inl e \<Rightarrow> (d, False, ErrorMsg e)
      | Inr r \<Rightarrow>
     (case get_habitacion d nueva_habitacion_id of
        Inl e \<Rightarrow> (d, False, ErrorMsg e)
      | Inr nueva \<Rightarrow>
          if \<not> esta_disponible d (hab_id nueva) (fecha_reserva r)
          then (d, False, NuevaHabitacionNoDisponible)
          else if cantidad_plazas nueva < cantidad_personas r
          then (d, False, HabitacionSinCapacidad)
          else (case save d (r\<lparr>habitacion_id := Some (hab_id nueva)\<rparr>) of
                  Inl e \<Rightarrow> (d, False, ErrorMsg e)
                | Inr (d', _) \<Rightarrow> (d', True, HabitacionCambiadaExitosamente))))"

fun confirmar_masiva_bucle ::
  "db \<Rightarrow> nat list \<Rightarrow> nat \<Rightarrow> mensaje list \<Rightarrow> db \<times> nat \<times> mensaje list" where
  "confirmar_masiva_bucle d [] exitosas fallidas = (d, exitosas, fallidas)"
| "confirmar_masiva_bucle d (reserva_id # ids) exitosas fallidas =
     (case get_reserva d reserva_id of
        Inl e \<Rightarrow> confirmar_masiva_bucle d ids exitosas (fallidas @ [ReservaError reserva_id e])
      | Inr r \<Rightarrow>
          if puede_confirmar d r
          then (case save d (r\<lparr>estado := Confirmada\<rparr>) of
                  Inl e \<Rightarrow>
                    confirmar_masiva_bucle d ids exitosas (fallidas @ [ReservaError reserva_id e])
                | Inr (d', _) \<Rightarrow> confirmar_masiva_bucle d' ids (exitosas + 1) fallidas)
          else confirmar_masiva_bucle d ids exitosas
                 (fallidas @ [NoSePuedeConfirmar reserva_id]))"

definition confirmar_reserva_masiva :: "db \<Rightarrow> nat list \<Rightarrow> db \<times> nat \<times> mensaje list" where
  "confirmar_reserva_masiva d reserva_ids = confirmar_masiva_bucle d reserva_ids 0 []"

section \<open>Administration (admin.py)\<close>

text \<open>
  The two bulk actions iterate over the objects of the selected queryset, read when the
  loop starts. An exception of \<open>save\<close> is not caught: it ends the action, and what was
  written before it stays written. The result is the database, the messages shown and
  the exception, if any.
\<close>

fun confirmar_reservas :: "db \<Rightarrow> reserva list \<Rightarrow> db \<times> mensaje list \<times> error option" where
  "confirmar_reservas d [] = (d, [], None)"
| "confirmar_reservas d (r # queryset) =
     (if estado r \<noteq> Confirmada
      then (case save d (r\<lparr>estado := Confirmada\<rparr>) of
              Inl e \<Rightarrow> (d, [], Some e)
            | Inr (d', r') \<Rightarrow>
                (case confirmar_reservas d' queryset of
                   (d'', ms, e) \<Rightarrow> (d'', ReservaConfirmadaMsg (pk r') # ms, e)))
      else confirmar_reservas d queryset)"

fun cancelar_reservas :: "db \<Rightarrow> reserva list \<Rightarrow> db \<times> mensaje list \<times> error option" where
  "cancelar_reservas d [] = (d, [], None)"
| "cancelar_reservas d (r # queryset) =
     (if estado r \<noteq> Cancelada
      then (case save d (r\<lparr>estado := Cancelada\<rparr>) of
              Inl e \<Rightarrow> (d, [], Some e)
            | Inr (d', r') \<Rightarrow>
                (case cancelar_reservas d' queryset of
                   (d'', ms, e) \<Rightarrow> (d'', ReservaCanceladaMsg (pk r') # ms, e)))
      else cancelar_reservas d queryset)"

text \<open>
  The three views of \<open>ReservaAdmin\<close>. An uncaught exception is \<open>Inl\<close>; otherwise the view
  returns the database and the message it shows.
\<close>

definition confirmar_reserva :: "db \<Rightarrow> nat \<Rightarrow> error + db \<times> mensaje" where
  "confirmar_reserva d reserva_id =
     (case get_reserva d reserva_id of
        Inl e \<Rightarrow> Inl e
      | Inr r \<Rightarrow>
     (case habitacion_id r of
        None \<Rightarrow> Inl AttributeError
      | Some hab \<Rightarrow>
     (case get_habitacion d hab of
        Inl e \<Rightarrow> Inl e
      | Inr hb \<Rightarrow>
          if \<not> esta_disponible d (hab_id hb) (fecha_reserva r)
          then (let habitaciones_alternativas =
                      filter (\<lambda>a. cantidad_plazas a \<ge> cantidad_personas r)
                        (habitaciones_disponibles d (hab_hotel hb) (Some (fecha_reserva r)))
                in if habitaciones_alternativas \<noteq> []
                   then Inr (d, HabitacionNoDisponibleHayAlternativas (numero hb)
                                  (length habitaciones_alternativas))
                   else Inr (d, NoHayHabitacionesEnHotel (hab_hotel hb) (fecha_reserva r)))
          else (case save d (r\<lparr>estado := Confirmada\<rparr>) of
                  Inl e \<Rightarrow> Inl e
                | Inr (d', r') \<Rightarrow> Inr (d', ReservaConfirmadaMsg (pk r'))))))"

definition cancelar_reserva :: "db \<Rightarrow> nat \<Rightarrow> error + db \<times> mensaje" where
  "cancelar_reserva d reserva_id =
     (case get_reserva d reserva_id of
        Inl e \<Rightarrow> Inl e
      | Inr r \<Rightarrow>
          (case save d (r\<lparr>estado := Cancelada\<rparr>) of
             Inl e \<Rightarrow> Inl e
           | Inr (d', r') \<Rightarrow> Inr (d', ReservaCanceladaMsg (pk r'))))"

text \<open>The POST branch of the view \<open>cambiar_habitacion\<close>, with a room id in the form.\<close>

definition cambiar_habitacion :: "db \<Rightarrow> nat \<Rightarrow> nat \<Rightarrow> error + db \<times> mensaje" where
  "cambiar_habitacion d reserva_id nueva_habitacion_id =
     (case get_reserva d reserva_id of
        Inl e \<Rightarrow> Inl e
      | Inr r \<Rightarrow>
     (case habitacion_id r of
        None \<Rightarrow> Inr (d, ReservaSinHotel)
      | Some _ \<Rightarrow>
     (case get_habitacion d nueva_habitacion_id of
        Inl e \<Rightarrow> Inl e
      | Inr nueva \<Rightarrow>
          (case save d (r\<lparr>habitacion_id := Some (hab_id nueva)\<rparr>) of
             Inl e \<Rightarrow> Inl e
           | Inr (d', _) \<Rightarrow> Inr (d', HabitacionCambiadaA (numero nueva))))))"

section \<open>Guest self-service (views.py)\<close>

definition get_object_or_404 :: "('a \<Rightarrow> bool) \<Rightarrow> 'a list \<Rightarrow> error + 'a" where
  "get_object_or_404 P xs =
     (case objects_get P xs of
        Inl DoesNotExist \<Rightarrow> Inl Http404
      | Inl e \<Rightarrow> Inl e
      | Inr x \<Rightarrow> Inr x)"

text \<open>
  \<open>Huesped.objects.get_or_create(email=..., defaults=...)\<close> returns the object and whether
  it was created; \<open>huesped.save()\<close> of a fetched object updates its row.
\<close>

definition get_or_create :: "db \<Rightarrow> string \<Rightarrow> string \<Rightarrow> string \<Rightarrow> error + db \<times> huesped \<times> bool" where
  "get_or_create d em nom tel =
     (case filter (\<lambda>h. email h = em) (huespedes d) of
        [] \<Rightarrow>
          (let h = \<lparr>hue_id = sig_huesped d, nombre = nom, email = em, telefono = tel\<rparr>
           in Inr (d\<lparr>huespedes := huespedes d @ [h], sig_huesped := Suc (sig_huesped d)\<rparr>,
                   h, True))
      | [h] \<Rightarrow> Inr (d, h, False)
      | _ \<Rightarrow> Inl MultipleObjectsReturned)"

definition huesped_save :: "db \<Rightarrow> huesped \<Rightarrow> db" where
  "huesped_save d h =
     d\<lparr>huespedes := map (\<lambda>x. if hue_id x = hue_id h then h else x) (huespedes d)\<rparr>"

text \<open>Lines 163 to 178 of \<open>completar_reserva\<close>: the guest of the submitted form.\<close>

definition buscar_o_crear_huesped ::
  "db \<Rightarrow> string \<Rightarrow> string \<Rightarrow> string \<Rightarrow> error + db \<times> huesped" where
  "buscar_o_crear_huesped d nom em tel =
     (case get_or_create d em nom tel of
        Inl e \<Rightarrow> Inl e
      | Inr (d', hu, created) \<Rightarrow>
          if \<not> created
          then (if nombre hu \<noteq> nom \<or> telefono hu \<noteq> tel
                then (let hu' = hu\<lparr>nombre := nom, telefono := tel\<rparr>
                      in Inr (huesped_save d' hu', hu'))
                else Inr (d', hu))
          else Inr (d', hu))"

text \<open>
  The POST branch of \<open>completar_reserva\<close>. The session holds the date, the party size,
  the hotel and the room; the form holds the name, the email and the phone. The date and
  the room id are non-empty strings in the session and are taken as parsed, and the three
  form fields as present; of the test \<open>not all([...])\<close> that leaves the two integers,
  false when zero.
\<close>

definition completar_reserva ::
  "db \<Rightarrow> int \<Rightarrow> int \<Rightarrow> nat \<Rightarrow> nat \<Rightarrow> string \<Rightarrow> string \<Rightarrow> string \<Rightarrow> error + db \<times> reserva" where
  "completar_reserva d fecha personas h_id hab nom em tel =
     (if personas = 0 \<or> h_id = 0 then Inl InformacionIncompleta
      else
     (case get_object_or_404 (\<lambda>h. hotel_id h = h_id) (hoteles d) of
        Inl e \<Rightarrow> Inl e
      | Inr hot \<Rightarrow>
     (case get_object_or_404 (\<lambda>hb. hab_id hb = hab) (habitaciones d) of
        Inl e \<Rightarrow> Inl e
      | Inr hb \<Rightarrow>
     (case buscar_o_crear_huesped d nom em tel of
        Inl e \<Rightarrow> Inl e
      | Inr (d', hu) \<Rightarrow>
          reserva_create d' (hue_id hu) fecha personas (Some (hab_id hb)) Pendiente))))"

section \<open>Room-date exclusivity\<close>

text \<open>
  The active reservations of a room on a date, and the invariant: every stored
  reservation with a room sees at most one active reservation on its room and date.
  \<open>claves_ok\<close> is what the auto-increment primary key guarantees: keys are positive,
  below the next key, and no two rows share one.
\<close>

definition ocupa :: "nat \<Rightarrow> int \<Rightarrow> reserva \<Rightarrow> bool" where
  "ocupa hab fecha r =
     (habitacion_id r = Some hab \<and> fecha_reserva r = fecha \<and>
      estado r \<in> set [Confirmada, Pendiente])"

definition ocupantes :: "db \<Rightarrow> nat \<Rightarrow> int \<Rightarrow> reserva list" where
  "ocupantes d hab fecha = filter (ocupa hab fecha) (reservas d)"

definition exclusividad :: "db \<Rightarrow> bool" where
  "exclusividad d =
     (\<forall>r \<in> set (reservas d).
        case habitacion_id r of
          None \<Rightarrow> True
        | Some hab \<Rightarrow> length (ocupantes d hab (fecha_reserva r)) \<le> 1)"

definition claves_ok :: "db \<Rightarrow> bool" where
  "claves_ok d =
     (distinct (map pk (reservas d)) \<and> 0 < sig_reserva d \<and>
      (\<forall>r \<in> set (reservas d).
         case pk r of None \<Rightarrow> False | Some i \<Rightarrow> 0 < i \<and> i < sig_reserva d))"

text \<open>
  The operations of the administration on reservations, as one step function: create
  from the admin, confirm (view, bulk action, bulk helper), cancel (view, bulk action)
  and reassign through \<open>cambiar_habitacion_reserva\<close>. A failed operation leaves the
  database as it was. The bulk actions receive the queryset of the selected keys.
\<close>

datatype operacion =
    Crear nat int int nat "nat option"
  | Confirmar nat
  | ConfirmarSeleccion "nat list"
  | ConfirmarMasiva "nat list"
  | Cancelar nat
  | CancelarSeleccion "nat list"
  | Reasignar nat nat

definition seleccion :: "db \<Rightarrow> nat list \<Rightarrow> reserva list" where
  "seleccion d ids = filter (\<lambda>r. pk r \<in> Some ` set ids) (reservas d)"

fun ejecutar :: "db \<Rightarrow> operacion \<Rightarrow> db" where
  "ejecutar d (Crear hu fecha personas h hab) =
     fst (crear_reserva_desde_admin d hu fecha personas h hab)"
| "ejecutar d (Confirmar i) =
     (case confirmar_reserva d i of Inl e \<Rightarrow> d | Inr (d', m) \<Rightarrow> d')"
| "ejecutar d (ConfirmarSeleccion ids) = fst (confirmar_reservas d (seleccion d ids))"
| "ejecutar d (ConfirmarMasiva ids) = fst (confirmar_reserva_masiva d ids)"
| "ejecutar d (Cancelar i) =
     (case cancelar_reserva d i of Inl e \<Rightarrow> d | Inr (d', m) \<Rightarrow> d')"
| "ejecutar d (CancelarSeleccion ids) = fst (cancelar_reservas d (seleccion d ids))"
| "ejecutar d (Reasignar i hab) = fst (cambiar_habitacion_reserva d i hab)"

section \<open>Example data\<close>

text \<open>
  One hotel with two rooms, number 1 with four places and number 2 with two, one guest,
  and one pending reservation of room 1 for day 100. The clock shows instant 5; the
  stored reservations were saved at the instant of their key.
\<close>

definition hotel1 :: hotel where
  "hotel1 = \<lparr>hotel_id = 1, hotel_nombre = ''Sol'', cantidad_habitaciones = 2,
             generar_habitaciones_auto = True\<rparr>"

definition hab1 :: habitacion where
  "hab1 = \<lparr>hab_id = 1, hab_hotel = 1, numero = ''1'', cantidad_plazas = 4\<rparr>"

definition hab2 :: habitacion where
  "hab2 = \<lparr>hab_id = 2, hab_hotel = 1, numero = ''2'', cantidad_plazas = 2\<rparr>"

definition ana :: huesped where
  "ana = \<lparr>hue_id = 1, nombre = ''Ana'', email = ''ana@example.org'', telefono = ''555''\<rparr>"

definition res1 :: reserva where
  "res1 = \<lparr>pk = Some 1, huesped_id = 1, fecha_reserva = 100, cantidad_personas = 2,
           habitacion_id = Some 1, estado = Pendiente, fecha_creacion = Some 1,
           fecha_modificacion = Some 1\<rparr>"

definition db0 :: db where
  "db0 = \<lparr>hoteles = [hotel1], habitaciones = [hab1, hab2], huespedes = [ana], reservas = [],
          sig_habitacion = 3, sig_huesped = 2, sig_reserva = 1, hoy = 100, reloj = 5\<rparr>"

definition db1 :: db where
  "db1 = db0\<lparr>reservas := [res1], sig_reserva := 2\<rparr>"

text \<open>A cancelled reservation of the same room and day, beside the pending one.\<close>

definition res2 :: reserva where
  "res2 = \<lparr>pk = Some 2, huesped_id = 1, fecha_reserva = 100, cantidad_personas = 2,
           habitacion_id = Some 1, estado = Cancelada, fecha_creacion = Some 2,
           fecha_modificacion = Some 2\<rparr>"

definition db2 :: db where
  "db2 = db0\<lparr>reservas := [res1, res2], sig_reserva := 3\<rparr>"

text \<open>The pending reservation after its stay: the same row with status \<open>Completada\<close>.\<close>

definition res_completada :: reserva where
  "res_completada = res1\<lparr>estado := Completada\<rparr>"

definition db_completada :: db where
  "db_completada = db0\<lparr>reservas := [res_completada], sig_reserva := 2\<rparr>"

text \<open>
  A third room with one place, held on day 100 by a confirmed reservation of one
  person, beside the pending reservation of two persons on room 1.
\<close>

definition hab3 :: habitacion where
  "hab3 = \<lparr>hab_id = 3, hab_hotel = 1, numero = ''3'', cantidad_plazas = 1\<rparr>"

definition res3 :: reserva where
  "res3 = \<lparr>pk = Some 3, huesped_id = 1, fecha_reserva = 100, cantidad_personas = 1,
           habitacion_id = Some 3, estado = Confirmada, fecha_creacion = Some 3,
           fecha_modificacion = Some 3\<rparr>"

definition db3 :: db where
  "db3 = db0\<lparr>habitaciones := [hab1, hab2, hab3], reservas := [res1, res3],
             sig_habitacion := 4, sig_reserva := 4\<rparr>"

text \<open>
  A second, confirmed reservation of room 1 for day 100, under the next key, created at
  the instant the clock of the examples shows.
\<close>

definition res_doble :: reserva where
  "res_doble = \<lparr>pk = Some 2, huesped_id = 1, fecha_reserva = 100, cantidad_personas = 2,
                habitacion_id = Some 1, estado = Confirmada, fecha_creacion = Some 5,
                fecha_modificacion = Some 5\<rparr>"

text \<open>The hotel before any room exists, and the same hotel asking for minus one rooms.\<close>

definition db_sin_habitaciones :: db where
  "db_sin_habitaciones = db0\<lparr>habitaciones := [], sig_habitacion := 1\<rparr>"

definition hotel_negativo :: hotel where
  "hotel_negativo = hotel1\<lparr>cantidad_habitaciones := - 1\<rparr>"

section \<open>Properties\<close>


lemmas ejemplos = db0_def db1_def db2_def db3_def db_completada_def db_sin_habitaciones_def
  res1_def res2_def res3_def res_completada_def res_doble_def ana_def hab1_def hab2_def hab3_def
  hotel1_def hotel_negativo_def

section \<open>Lookups\<close>

lemma reservada_iff:
  assumes "hb \<in> set (habitaciones d)" "hab_hotel hb = h"
  shows "hab_id hb \<in> set (habitaciones_reservadas d h fecha) \<longleftrightarrow>
         \<not> esta_disponible d (hab_id hb) fecha"
  using assms unfolding habitaciones_reservadas_def esta_disponible_def
  by auto

lemma habitaciones_disponibles_filtro:
  "habitaciones_disponibles d h (Some fecha) =
     sort_key numero
       (filter (\<lambda>hb. hab_hotel hb = h \<and> esta_disponible d (hab_id hb) fecha) (habitaciones d))"
proof -
  have "filter (\<lambda>hb. hab_id hb \<notin> set (habitaciones_reservadas d h fecha))
          (filter (\<lambda>hb. hab_hotel hb = h) (habitaciones d))
      = filter (\<lambda>hb. hab_hotel hb = h \<and> esta_disponible d (hab_id hb) fecha) (habitaciones d)"
    unfolding filter_filter
    by (rule filter_cong) (auto simp: reservada_iff)
  then show ?thesis
    by (simp add: habitaciones_disponibles_def habitacion_set_def filter_sort)
qed

lemma objects_get_Inr:
  assumes "objects_get P xs = Inr x"
  shows "filter P xs = [x]"
  using assms unfolding objects_get_def by (auto split: list.splits)

lemma objects_get_mem:
  assumes "objects_get P xs = Inr x"
  shows "x \<in> set xs \<and> P x"
proof -
  have "x \<in> set (filter P xs)" using objects_get_Inr[OF assms] by simp
  then show ?thesis by simp
qed

lemma get_reserva_mem:
  "get_reserva d i = Inr r \<Longrightarrow> r \<in> set (reservas d) \<and> pk r = Some i"
  unfolding get_reserva_def by (drule objects_get_mem) simp

lemma puede_confirmar_nunca: "r \<in> set (reservas d) \<Longrightarrow> \<not> puede_confirmar d r"
  unfolding puede_confirmar_def esta_disponible_def
  by (auto split: option.splits)

lemma bucle_sin_cambios:
  "confirmar_masiva_bucle d ids ex fa =
     (d, ex, fa @ map (\<lambda>i. case get_reserva d i of
                              Inl e \<Rightarrow> ReservaError i e
                            | Inr r \<Rightarrow> NoSePuedeConfirmar i) ids)"
proof (induction ids arbitrary: fa)
  case Nil
  then show ?case by simp
next
  case (Cons i ids)
  show ?case
  proof (cases "get_reserva d i")
    case (Inl e)
    then show ?thesis using Cons.IH by simp
  next
    case (Inr r)
    then have "\<not> puede_confirmar d r"
      by (simp add: get_reserva_mem puede_confirmar_nunca)
    then show ?thesis using Inr Cons.IH by simp
  qed
qed

text \<open>
  C4: a stored pending reservation with a room can never be confirmed through
  \<open>puede_confirmar\<close>: the availability check counts the reservation's own row, so the
  room is not available on its date. Hence \<open>confirmar_reserva_masiva\<close>, given keys of
  such reservations, changes nothing, confirms none and reports every key as failed.
\<close>

theorem puede_confirmar_pendiente_falso:
  assumes "r \<in> set (reservas d)" "estado r = Pendiente" "habitacion_id r = Some hab"
    and "\<forall>i \<in> set ids. \<exists>x. get_reserva d i = Inr x \<and> estado x = Pendiente \<and> habitacion_id x \<noteq> None"
  shows "\<not> esta_disponible d hab (fecha_reserva r) \<and> \<not> puede_confirmar d r \<and>
         confirmar_reserva_masiva d ids = (d, 0, map NoSePuedeConfirmar ids)"
proof -
  have a: "\<not> esta_disponible d hab (fecha_reserva r)"
    using assms(1-3) unfolding esta_disponible_def by auto
  have b: "\<not> puede_confirmar d r" using assms(1) by (rule puede_confirmar_nunca)
  have "map (\<lambda>i. case get_reserva d i of Inl e \<Rightarrow> ReservaError i e
                   | Inr r \<Rightarrow> NoSePuedeConfirmar i) ids = map NoSePuedeConfirmar ids"
    using assms(4) by (intro map_cong) auto
  then have c: "confirmar_reserva_masiva d ids = (d, 0, map NoSePuedeConfirmar ids)"
    unfolding confirmar_reserva_masiva_def bucle_sin_cambios by simp
  from a b c show ?thesis by simp
qed

theorem puede_confirmar_pendiente_falso_witness:
  "res1 \<in> set (reservas db1) \<and> estado res1 = Pendiente \<and> habitacion_id res1 = Some 1 \<and>
   get_reserva db1 1 = Inr res1 \<and>
   \<not> esta_disponible db1 1 100 \<and> \<not> puede_confirmar db1 res1 \<and>
   confirmar_reserva_masiva db1 [1] = (db1, 0, [NoSePuedeConfirmar 1])"
proof -
  have g: "get_reserva db1 1 = Inr res1"
    by (simp add: get_reserva_def objects_get_def ejemplos)
  have h: "res1 \<in> set (reservas db1)" "estado res1 = Pendiente" "habitacion_id res1 = Some 1"
    by (simp_all add: ejemplos)
  have f: "fecha_reserva res1 = 100" by (simp add: ejemplos)
  have q: "\<forall>i \<in> set [1]. \<exists>x. get_reserva db1 i = Inr x \<and> estado x = Pendiente \<and> habitacion_id x \<noteq> None"
    using g h by simp
  show ?thesis
    using puede_confirmar_pendiente_falso[OF h q] g h f by simp
qed

text \<open>
  C3: setting a stored reservation with a room to \<open>Confirmada\<close> while another row of
  the same room and date is pending or confirmed raises \<open>ValueError\<close> before anything
  is written; the action that confirms it ends with that exception and the database,
  hence the stored status, is the one before.
\<close>

theorem save_rechaza_conflicto:
  assumes "r \<in> set (reservas d)" "pk r = Some i" "0 < i" "habitacion_id r = Some hab"
    and "estado r \<noteq> Confirmada"
    and "otra \<in> set (reservas d)" "pk otra \<noteq> Some i" "habitacion_id otra = Some hab"
    and "fecha_reserva otra = fecha_reserva r" "estado otra \<in> {Pendiente, Confirmada}"
  shows "save d (r\<lparr>estado := Confirmada\<rparr>) = Inl ValueError \<and>
         confirmar_reservas d [r] = (d, [], Some ValueError)"
proof -
  have "otra \<in> set (reservas_conflictivas d (r\<lparr>estado := Confirmada\<rparr>))"
    using assms unfolding reservas_conflictivas_def by auto
  then have "reservas_conflictivas d (r\<lparr>estado := Confirmada\<rparr>) \<noteq> []" by auto
  then have s: "save d (r\<lparr>estado := Confirmada\<rparr>) = Inl ValueError"
    using assms(2-4) by (simp add: save_def truthy_def)
  then show ?thesis using assms(5) by simp
qed


theorem save_rechaza_conflicto_witness:
  "res2 \<in> set (reservas db2) \<and> pk res2 = Some 2 \<and> estado res2 \<noteq> Confirmada \<and>
   res1 \<in> set (reservas db2) \<and> pk res1 \<noteq> Some 2 \<and>
   habitacion_id res1 = habitacion_id res2 \<and> fecha_reserva res1 = fecha_reserva res2 \<and>
   estado res1 = Pendiente \<and>
   save db2 (res2\<lparr>estado := Confirmada\<rparr>) = Inl ValueError \<and>
   confirmar_reservas db2 [res2] = (db2, [], Some ValueError)"
proof -
  have h: "res2 \<in> set (reservas db2)" "pk res2 = Some 2" "0 < (2::nat)"
    "habitacion_id res2 = Some 1" "estado res2 \<noteq> Confirmada"
    "res1 \<in> set (reservas db2)" "pk res1 \<noteq> Some 2" "habitacion_id res1 = Some 1"
    "fecha_reserva res1 = fecha_reserva res2" "estado res1 \<in> {Pendiente, Confirmada}"
    by (simp_all add: ejemplos)
  have e: "estado res1 = Pendiente" by (simp add: ejemplos)
  show ?thesis
    using save_rechaza_conflicto[OF h] h e by simp
qed

text \<open>
  C8: the bulk query is the per-room predicate: for a date it returns, in the order of
  the room number, exactly the rooms of the hotel for which \<open>esta_disponible\<close> holds on
  that date; without a date it is the query for today's date.
\<close>

theorem habitaciones_disponibles_es_esta_disponible:
  "habitaciones_disponibles d h (Some fecha) =
     sort_key numero
       (filter (\<lambda>hb. hab_hotel hb = h \<and> esta_disponible d (hab_id hb) fecha) (habitaciones d))
   \<and> habitaciones_disponibles d h None = habitaciones_disponibles d h (Some (hoy d))"
proof
  show "habitaciones_disponibles d h (Some fecha) =
     sort_key numero
       (filter (\<lambda>hb. hab_hotel hb = h \<and> esta_disponible d (hab_id hb) fecha) (habitaciones d))"
    by (rule habitaciones_disponibles_filtro)
  show "habitaciones_disponibles d h None = habitaciones_disponibles d h (Some (hoy d))"
    by (simp add: habitaciones_disponibles_def)
qed

text \<open>
  C2: the view \<open>confirmar_reserva\<close> at a database whose only reservation is pending, on
  room 1 for day 100. No other reservation holds the room, yet the view takes the
  branch of the unavailable room and the reservation stays pending: the check does not
  leave the reservation itself out.
\<close>

theorem confirmar_reserva_cuenta_la_propia:
  "reservas db1 = [res1] \<and> estado res1 = Pendiente \<and> habitacion_id res1 = Some 1 \<and>
   confirmar_reserva db1 1 = Inr (db1, HabitacionNoDisponibleHayAlternativas ''1'' 1)"
  by (simp add: confirmar_reserva_def get_reserva_def get_habitacion_def objects_get_def
      ejemplos esta_disponible_def habitaciones_disponibles_def habitacion_set_def
      habitaciones_reservadas_def)




section \<open>Cancelling\<close>

text \<open>
  C5: the view \<open>cancelar_reserva\<close> at a database whose only reservation, number 1, is
  completed, a status from which \<open>puede_cancelar\<close> allows no cancel. The view consults
  no status: it stores \<open>Cancelada\<close>. Called again, it saves the cancelled row once more,
  which rewrites its modification stamp, and shows its message again; the bulk action
  \<open>cancelar_reservas\<close> on the same cancelled reservation writes nothing and shows nothing.
\<close>

theorem cancelar_reserva_sin_guarda:
  "\<not> puede_cancelar res_completada \<and>
   get_reserva db_completada 1 = Inr res_completada \<and>
   cancelar_reserva db_completada 1 =
     Inr (db_completada\<lparr>reservas := [res1\<lparr>estado := Cancelada,
                                              fecha_modificacion := Some 5\<rparr>],
                        reloj := 6\<rparr>,
          ReservaCanceladaMsg (Some 1)) \<and>
   cancelar_reserva
     (db_completada\<lparr>reservas := [res1\<lparr>estado := Cancelada, fecha_modificacion := Some 5\<rparr>],
                    reloj := 6\<rparr>) 1 =
     Inr (db_completada\<lparr>reservas := [res1\<lparr>estado := Cancelada,
                                              fecha_modificacion := Some 6\<rparr>],
                        reloj := 7\<rparr>,
          ReservaCanceladaMsg (Some 1)) \<and>
   cancelar_reservas
     (db_completada\<lparr>reservas := [res1\<lparr>estado := Cancelada, fecha_modificacion := Some 5\<rparr>],
                    reloj := 6\<rparr>)
     [res1\<lparr>estado := Cancelada, fecha_modificacion := Some 5\<rparr>] =
     (db_completada\<lparr>reservas := [res1\<lparr>estado := Cancelada, fecha_modificacion := Some 5\<rparr>],
                    reloj := 6\<rparr>, [], None)"
  by (simp add: puede_cancelar_def cancelar_reserva_def get_reserva_def objects_get_def
      save_def model_save_def Let_def ejemplos)

section \<open>Reassigning\<close>

text \<open>
  C6, as the code has it: \<open>cambiar_habitacion_reserva\<close> checks the availability of the
  new room on the reservation's date first and its capacity second. For a stored
  reservation and an existing room, a room with fewer places than the party never
  becomes the reservation's room and the database stays as it was; the outcome is the
  insufficient capacity when the room is available on the date and the unavailable room
  otherwise. A reassignment that succeeds went to an available room of enough places.
\<close>

theorem cambiar_habitacion_reserva_valida:
  assumes "get_reserva d rid = Inr r" "get_habitacion d hid = Inr nueva"
  shows "(cantidad_plazas nueva < cantidad_personas r \<longrightarrow>
            cambiar_habitacion_reserva d rid hid =
              (d, False, if esta_disponible d (hab_id nueva) (fecha_reserva r)
                         then HabitacionSinCapacidad else NuevaHabitacionNoDisponible)) \<and>
         (\<not> esta_disponible d (hab_id nueva) (fecha_reserva r) \<longrightarrow>
            cambiar_habitacion_reserva d rid hid = (d, False, NuevaHabitacionNoDisponible)) \<and>
         (fst (snd (cambiar_habitacion_reserva d rid hid)) \<longrightarrow>
            esta_disponible d (hab_id nueva) (fecha_reserva r) \<and>
            cantidad_personas r \<le> cantidad_plazas nueva)"
  using assms
  by (auto simp: cambiar_habitacion_reserva_def split: sum.splits prod.splits)


theorem cambiar_habitacion_reserva_valida_witness:
  "get_reserva (db3\<lparr>reservas := [res1]\<rparr>) 1 = Inr res1 \<and>
   get_habitacion (db3\<lparr>reservas := [res1]\<rparr>) 3 = Inr hab3 \<and>
   cantidad_plazas hab3 < cantidad_personas res1 \<and>
   esta_disponible (db3\<lparr>reservas := [res1]\<rparr>) 3 100 \<and>
   cambiar_habitacion_reserva (db3\<lparr>reservas := [res1]\<rparr>) 1 3 =
     (db3\<lparr>reservas := [res1]\<rparr>, False, HabitacionSinCapacidad)"
proof -
  have g: "get_reserva (db3\<lparr>reservas := [res1]\<rparr>) 1 = Inr res1"
    by (simp add: get_reserva_def objects_get_def ejemplos)
  have h: "get_habitacion (db3\<lparr>reservas := [res1]\<rparr>) 3 = Inr hab3"
    by (simp add: get_habitacion_def objects_get_def ejemplos)
  have c: "cantidad_plazas hab3 < cantidad_personas res1" by (simp add: ejemplos)
  have e: "esta_disponible (db3\<lparr>reservas := [res1]\<rparr>) 3 100"
    by (simp add: esta_disponible_def ejemplos)
  have i: "hab_id hab3 = 3" "fecha_reserva res1 = 100" by (simp_all add: ejemplos)
  show ?thesis
    using cambiar_habitacion_reserva_valida[OF g h] g h c e i by simp
qed

theorem cambiar_habitacion_counterexample:
  "get_reserva db3 1 = Inr res1 \<and> get_habitacion db3 3 = Inr hab3 \<and>
   cantidad_plazas hab3 < cantidad_personas res1 \<and>
   cambiar_habitacion_reserva db3 1 3 = (db3, False, NuevaHabitacionNoDisponible) \<and>
   cambiar_habitacion db3 1 3 =
     Inr (db3\<lparr>reservas := [res1\<lparr>habitacion_id := Some 3, fecha_modificacion := Some 5\<rparr>,
                          res3],
              reloj := 6\<rparr>,
          HabitacionCambiadaA ''3'')"
  by (simp add: cambiar_habitacion_reserva_def cambiar_habitacion_def get_reserva_def
      get_habitacion_def objects_get_def esta_disponible_def save_def model_save_def Let_def
      ejemplos)


section \<open>Guests\<close>

lemma map_reemplazo_unico:
  assumes "distinct (map f xs)" "h \<in> set xs"
  shows "map (\<lambda>x. if f x = f h then h' else x) xs = map (\<lambda>x. if x = h then h' else x) xs"
proof (rule map_cong[OF refl])
  fix x assume "x \<in> set xs"
  then have "f x = f h \<longleftrightarrow> x = h"
    using assms by (meson distinct_map inj_onD)
  then show "(if f x = f h then h' else x) = (if x = h then h' else x)" by simp
qed

lemma filter_reemplazo_uno:
  assumes "filter P xs = [h]" "P h'"
  shows "filter P (map (\<lambda>x. if x = h then h' else x) xs) = [h']"
proof -
  have "\<forall>x \<in> set xs. P x \<longleftrightarrow> x = h"
  proof
    fix x assume x: "x \<in> set xs"
    have "set (filter P xs) = {h}" using assms(1) by simp
    then show "P x \<longleftrightarrow> x = h" using x by auto
  qed
  then have e1: "map (\<lambda>x. if x = h then h' else x) xs = map (\<lambda>x. if P x then h' else x) xs"
    by (intro map_cong) auto
  have e2: "filter P (map (\<lambda>x. if P x then h' else x) xs) = map (\<lambda>_. h') (filter P xs)"
    using assms(2) by (induction xs) auto
  show ?thesis unfolding e1 e2 assms(1) by simp
qed

text \<open>
  C10: the guest of a submitted form. When no guest has the email, one is created with
  the submitted name and phone. When exactly one has it, none is created: the number of
  guests and the next key stay, the returned guest is that one with the submitted name
  and phone, and its row, still the only one with the email, holds them.
\<close>

theorem huesped_unico_por_email:
  "(filter (\<lambda>h. email h = em) (huespedes d) = [] \<longrightarrow>
      buscar_o_crear_huesped d nom em tel =
        Inr (d\<lparr>huespedes := huespedes d @
                  [\<lparr>hue_id = sig_huesped d, nombre = nom, email = em, telefono = tel\<rparr>],
               sig_huesped := Suc (sig_huesped d)\<rparr>,
             \<lparr>hue_id = sig_huesped d, nombre = nom, email = em, telefono = tel\<rparr>)) \<and>
   (filter (\<lambda>h. email h = em) (huespedes d) = [h] \<and> distinct (map hue_id (huespedes d)) \<longrightarrow>
      (\<exists>d'. buscar_o_crear_huesped d nom em tel = Inr (d', h\<lparr>nombre := nom, telefono := tel\<rparr>) \<and>
            huespedes d' =
              map (\<lambda>x. if x = h then h\<lparr>nombre := nom, telefono := tel\<rparr> else x) (huespedes d) \<and>
            length (huespedes d') = length (huespedes d) \<and>
            filter (\<lambda>h. email h = em) (huespedes d') = [h\<lparr>nombre := nom, telefono := tel\<rparr>] \<and>
            sig_huesped d' = sig_huesped d))"
proof (intro conjI impI)
  assume "filter (\<lambda>h. email h = em) (huespedes d) = []"
  then show "buscar_o_crear_huesped d nom em tel =
        Inr (d\<lparr>huespedes := huespedes d @
                  [\<lparr>hue_id = sig_huesped d, nombre = nom, email = em, telefono = tel\<rparr>],
               sig_huesped := Suc (sig_huesped d)\<rparr>,
             \<lparr>hue_id = sig_huesped d, nombre = nom, email = em, telefono = tel\<rparr>)"
    by (simp add: buscar_o_crear_huesped_def get_or_create_def Let_def)
next
  let ?h' = "h\<lparr>nombre := nom, telefono := tel\<rparr>"
  assume a: "filter (\<lambda>h. email h = em) (huespedes d) = [h] \<and> distinct (map hue_id (huespedes d))"
  then have f: "filter (\<lambda>h. email h = em) (huespedes d) = [h]"
    and di: "distinct (map hue_id (huespedes d))" by auto
  have "h \<in> set (filter (\<lambda>h. email h = em) (huespedes d))" using f by simp
  then have hin: "h \<in> set (huespedes d)" and he: "email h = em" by auto
  have m: "map (\<lambda>x. if hue_id x = hue_id ?h' then ?h' else x) (huespedes d)
           = map (\<lambda>x. if x = h then ?h' else x) (huespedes d)"
    using map_reemplazo_unico[OF di hin, of ?h'] by simp
  have fl: "filter (\<lambda>h. email h = em) (map (\<lambda>x. if x = h then ?h' else x) (huespedes d)) = [?h']"
    using filter_reemplazo_uno[OF f, of ?h'] he by simp
  show "\<exists>d'. buscar_o_crear_huesped d nom em tel = Inr (d', ?h') \<and>
            huespedes d' = map (\<lambda>x. if x = h then ?h' else x) (huespedes d) \<and>
            length (huespedes d') = length (huespedes d) \<and>
            filter (\<lambda>h. email h = em) (huespedes d') = [?h'] \<and>
            sig_huesped d' = sig_huesped d"
  proof (cases "nombre h \<noteq> nom \<or> telefono h \<noteq> tel")
    case True
    then have "buscar_o_crear_huesped d nom em tel = Inr (huesped_save d ?h', ?h')"
      using f by (simp add: buscar_o_crear_huesped_def get_or_create_def Let_def)
    moreover have "huespedes (huesped_save d ?h') = map (\<lambda>x. if x = h then ?h' else x) (huespedes d)"
      using m by (simp add: huesped_save_def)
    moreover have "sig_huesped (huesped_save d ?h') = sig_huesped d"
      by (simp add: huesped_save_def)
    ultimately show ?thesis using fl by simp
  next
    case False
    then have eq: "?h' = h" by simp
    have "buscar_o_crear_huesped d nom em tel = Inr (d, h)"
      using f False by (simp add: buscar_o_crear_huesped_def get_or_create_def Let_def)
    moreover have "map (\<lambda>x. if x = h then ?h' else x) (huespedes d) = huespedes d"
      unfolding eq by (induction "huespedes d") auto
    ultimately show ?thesis using fl eq by simp
  qed
qed

theorem huesped_unico_por_email_witness:
  "filter (\<lambda>h. email h = ''eva@example.org'') (huespedes db0) = [] \<and>
   buscar_o_crear_huesped db0 ''Eva'' ''eva@example.org'' ''777'' =
     Inr (db0\<lparr>huespedes := [ana, \<lparr>hue_id = 2, nombre = ''Eva'', email = ''eva@example.org'',
                                    telefono = ''777''\<rparr>],
              sig_huesped := 3\<rparr>,
          \<lparr>hue_id = 2, nombre = ''Eva'', email = ''eva@example.org'', telefono = ''777''\<rparr>) \<and>
   filter (\<lambda>h. email h = ''ana@example.org'') (huespedes db0) = [ana] \<and>
   distinct (map hue_id (huespedes db0)) \<and>
   (\<exists>d'. buscar_o_crear_huesped db0 ''Ana Paz'' ''ana@example.org'' ''777'' =
            Inr (d', ana\<lparr>nombre := ''Ana Paz'', telefono := ''777''\<rparr>) \<and>
          huespedes d' = [ana\<lparr>nombre := ''Ana Paz'', telefono := ''777''\<rparr>])"
proof -
  have a: "filter (\<lambda>h. email h = ''eva@example.org'') (huespedes db0) = []"
    by (simp add: ejemplos)
  have b: "filter (\<lambda>h. email h = ''ana@example.org'') (huespedes db0) = [ana]"
    "distinct (map hue_id (huespedes db0))"
    by (simp_all add: ejemplos)
  have c: "huespedes db0 = [ana]" "sig_huesped db0 = 2" by (simp_all add: ejemplos)
  from huesped_unico_por_email[of "''eva@example.org''" db0 "''Eva''" "''777''"] a c
  have 1: "buscar_o_crear_huesped db0 ''Eva'' ''eva@example.org'' ''777'' =
     Inr (db0\<lparr>huespedes := [ana, \<lparr>hue_id = 2, nombre = ''Eva'', email = ''eva@example.org'',
                                    telefono = ''777''\<rparr>],
              sig_huesped := 3\<rparr>,
          \<lparr>hue_id = 2, nombre = ''Eva'', email = ''eva@example.org'', telefono = ''777''\<rparr>)"
    by simp
  from huesped_unico_por_email[of "''ana@example.org''" db0 "''Ana Paz''" "''777''" ana] b c
  have 2: "\<exists>d'. buscar_o_crear_huesped db0 ''Ana Paz'' ''ana@example.org'' ''777'' =
            Inr (d', ana\<lparr>nombre := ''Ana Paz'', telefono := ''777''\<rparr>) \<and>
          huespedes d' = [ana\<lparr>nombre := ''Ana Paz'', telefono := ''777''\<rparr>]"
    by auto
  from a b 1 2 show ?thesis by blast
qed

section \<open>Automatic room choice\<close>

lemma sort_key_primero:
  assumes "sort_key f xs = y # ys"
  shows "y \<in> set xs \<and> (\<forall>x \<in> set xs. f y \<le> f x)"
proof -
  have s: "sorted (map f (y # ys))" using assms sorted_sort_key[of f xs] by simp
  have e: "set (y # ys) = set xs" using assms set_sort[of f xs] by simp
  from s have "\<forall>x \<in> set (y # ys). f y \<le> f x" by auto
  then show ?thesis using e by auto
qed


text \<open>
  C9, as the code has it: without a room id, \<open>crear_reserva_desde_admin\<close> takes the first
  of the hotel's rooms that are available on the date and have places for the party in
  the default order of \<open>Habitacion\<close>, the room number as a string; the capacity does not
  order them. With no such room it returns the no-room outcome and writes nothing.
\<close>

theorem crear_reserva_elige_por_numero:
  fixes fecha :: int and personas :: int and d :: db and h_id :: nat
  assumes "objects_get (\<lambda>h. hue_id h = hu_id) (huespedes d) = Inr hu"
    and "objects_get (\<lambda>h. hotel_id h = h_id) (hoteles d) = Inr hot"
  defines "elegibles \<equiv> filter (\<lambda>hb. hab_hotel hb = h_id \<and> esta_disponible d (hab_id hb) fecha \<and>
                                     personas \<le> cantidad_plazas hb) (habitaciones d)"
  shows "(elegibles = [] \<longrightarrow>
            crear_reserva_desde_admin d hu_id fecha personas h_id None =
              (d, None, NoHayHabitacionesDisponibles)) \<and>
         (elegibles \<noteq> [] \<longrightarrow>
            (\<exists>hb r. crear_reserva_desde_admin d hu_id fecha personas h_id None =
                      (d\<lparr>reservas := reservas d @ [r], sig_reserva := Suc (sig_reserva d),
                         reloj := Suc (reloj d)\<rparr>,
                       Some r, ReservaCreadaExitosamente) \<and>
                    r = \<lparr>pk = Some (sig_reserva d), huesped_id = hu_id, fecha_reserva = fecha,
                         cantidad_personas = personas, habitacion_id = Some (hab_id hb),
                         estado = Confirmada, fecha_creacion = Some (reloj d),
                         fecha_modificacion = Some (reloj d)\<rparr> \<and>
                    hb \<in> set elegibles \<and> (\<forall>x \<in> set elegibles. numero hb \<le> numero x)))"
proof -
  have hu: "hue_id hu = hu_id" using assms(1) objects_get_mem by fastforce
  have ho: "hotel_id hot = h_id" using assms(2) objects_get_mem by fastforce
  have l: "filter (\<lambda>hb. personas \<le> cantidad_plazas hb)
             (habitaciones_disponibles d (hotel_id hot) (Some fecha)) = sort_key numero elegibles"
    using habitaciones_disponibles_filtro[of d h_id fecha] ho
    by (simp add: elegibles_def filter_sort conj_commute conj_left_commute)
  show ?thesis
  proof (cases "sort_key numero elegibles")
    case Nil
    then have e: "elegibles = []" using set_sort[of numero elegibles] by simp
    have "crear_reserva_desde_admin d hu_id fecha personas h_id None =
              (d, None, NoHayHabitacionesDisponibles)"
      using assms(1,2) l Nil by (simp add: crear_reserva_desde_admin_def truthy_def)
    then show ?thesis using e by simp
  next
    case (Cons hb rest)
    then have m: "hb \<in> set elegibles \<and> (\<forall>x \<in> set elegibles. numero hb \<le> numero x)"
      by (rule sort_key_primero)
    then have av: "esta_disponible d (hab_id hb) fecha" by (simp add: elegibles_def)
    have ne: "elegibles \<noteq> []" using m by auto
    let ?r = "\<lparr>pk = Some (sig_reserva d), huesped_id = hu_id, fecha_reserva = fecha,
               cantidad_personas = personas, habitacion_id = Some (hab_id hb),
               estado = Confirmada, fecha_creacion = Some (reloj d),
               fecha_modificacion = Some (reloj d)\<rparr>"
    have "crear_reserva_desde_admin d hu_id fecha personas h_id None =
            (d\<lparr>reservas := reservas d @ [?r], sig_reserva := Suc (sig_reserva d),
               reloj := Suc (reloj d)\<rparr>,
             Some ?r, ReservaCreadaExitosamente)"
      using assms(1,2) l Cons av hu
      by (simp add: crear_reserva_desde_admin_def truthy_def reserva_create_def save_def Let_def
          model_save_def)
    then show ?thesis using m ne by blast
  qed
qed



theorem crear_reserva_elige_por_numero_witness:
  "objects_get (\<lambda>h. hue_id h = 1) (huespedes db0) = Inr ana \<and>
   objects_get (\<lambda>h. hotel_id h = 1) (hoteles db0) = Inr hotel1 \<and>
   filter (\<lambda>hb. hab_hotel hb = 1 \<and> esta_disponible db0 (hab_id hb) 100 \<and>
                 2 \<le> cantidad_plazas hb) (habitaciones db0) = [hab1, hab2] \<and>
   (\<exists>hb r. crear_reserva_desde_admin db0 1 100 2 1 None =
             (db0\<lparr>reservas := reservas db0 @ [r], sig_reserva := Suc (sig_reserva db0),
                  reloj := Suc (reloj db0)\<rparr>,
              Some r, ReservaCreadaExitosamente) \<and>
           habitacion_id r = Some (hab_id hb) \<and> hb \<in> {hab1, hab2} \<and>
           numero hb \<le> numero hab1 \<and> numero hb \<le> numero hab2) \<and>
   filter (\<lambda>hb. hab_hotel hb = 1 \<and> esta_disponible db0 (hab_id hb) 100 \<and>
                 5 \<le> cantidad_plazas hb) (habitaciones db0) = [] \<and>
   crear_reserva_desde_admin db0 1 100 5 1 None = (db0, None, NoHayHabitacionesDisponibles)"
proof -
  have a: "objects_get (\<lambda>h. hue_id h = 1) (huespedes db0) = Inr ana"
    by (simp add: objects_get_def ejemplos)
  have b: "objects_get (\<lambda>h. hotel_id h = 1) (hoteles db0) = Inr hotel1"
    by (simp add: objects_get_def ejemplos)
  have e2: "filter (\<lambda>hb. hab_hotel hb = 1 \<and> esta_disponible db0 (hab_id hb) 100 \<and>
                 2 \<le> cantidad_plazas hb) (habitaciones db0) = [hab1, hab2]"
    by (simp add: esta_disponible_def ejemplos)
  have e5: "filter (\<lambda>hb. hab_hotel hb = 1 \<and> esta_disponible db0 (hab_id hb) 100 \<and>
                 5 \<le> cantidad_plazas hb) (habitaciones db0) = []"
    by (simp add: esta_disponible_def ejemplos)
  have "[hab1, hab2] \<noteq> [] \<longrightarrow>
          (\<exists>hb r. crear_reserva_desde_admin db0 1 100 2 1 None =
                    (db0\<lparr>reservas := reservas db0 @ [r], sig_reserva := Suc (sig_reserva db0),
                  reloj := Suc (reloj db0)\<rparr>,
                     Some r, ReservaCreadaExitosamente) \<and>
                  r = \<lparr>pk = Some (sig_reserva db0), huesped_id = 1, fecha_reserva = 100,
                       cantidad_personas = 2, habitacion_id = Some (hab_id hb),
                       estado = Confirmada, fecha_creacion = Some (reloj db0),
                       fecha_modificacion = Some (reloj db0)\<rparr> \<and>
                  hb \<in> set [hab1, hab2] \<and> (\<forall>x \<in> set [hab1, hab2]. numero hb \<le> numero x))"
    using crear_reserva_elige_por_numero[OF a b, of 100 2] unfolding e2 by (rule conjunct2)
  then obtain hb r where
    c: "crear_reserva_desde_admin db0 1 100 2 1 None =
          (db0\<lparr>reservas := reservas db0 @ [r], sig_reserva := Suc (sig_reserva db0),
                  reloj := Suc (reloj db0)\<rparr>,
           Some r, ReservaCreadaExitosamente)"
    and r: "r = \<lparr>pk = Some (sig_reserva db0), huesped_id = 1, fecha_reserva = 100,
                 cantidad_personas = 2, habitacion_id = Some (hab_id hb), estado = Confirmada,
                 fecha_creacion = Some (reloj db0), fecha_modificacion = Some (reloj db0)\<rparr>"
    and m: "hb \<in> set [hab1, hab2]" "\<forall>x \<in> set [hab1, hab2]. numero hb \<le> numero x"
    by auto
  have "habitacion_id r = Some (hab_id hb) \<and> hb \<in> {hab1, hab2} \<and>
        numero hb \<le> numero hab1 \<and> numero hb \<le> numero hab2"
    using r m by simp
  with c have 1: "\<exists>hb r. crear_reserva_desde_admin db0 1 100 2 1 None =
             (db0\<lparr>reservas := reservas db0 @ [r], sig_reserva := Suc (sig_reserva db0),
                  reloj := Suc (reloj db0)\<rparr>,
              Some r, ReservaCreadaExitosamente) \<and>
           habitacion_id r = Some (hab_id hb) \<and> hb \<in> {hab1, hab2} \<and>
           numero hb \<le> numero hab1 \<and> numero hb \<le> numero hab2"
    by blast
  from crear_reserva_elige_por_numero[OF a b, of 100 5] e5
  have 2: "crear_reserva_desde_admin db0 1 100 5 1 None = (db0, None, NoHayHabitacionesDisponibles)"
    by simp
  from a b e2 e5 1 2 show ?thesis by blast
qed

theorem crear_reserva_no_ordena_por_plazas_counterexample:
  "hab_hotel hab2 = 1 \<and> esta_disponible db0 (hab_id hab2) 100 \<and> 2 \<le> cantidad_plazas hab2 \<and>
   cantidad_plazas hab2 < cantidad_plazas hab1 \<and>
   crear_reserva_desde_admin db0 1 100 2 1 None =
     (db0\<lparr>reservas := [\<lparr>pk = Some 1, huesped_id = 1, fecha_reserva = 100,
                        cantidad_personas = 2, habitacion_id = Some (hab_id hab1),
                        estado = Confirmada, fecha_creacion = Some 5,
                        fecha_modificacion = Some 5\<rparr>],
          sig_reserva := 2, reloj := 6\<rparr>,
      Some \<lparr>pk = Some 1, huesped_id = 1, fecha_reserva = 100, cantidad_personas = 2,
            habitacion_id = Some (hab_id hab1), estado = Confirmada, fecha_creacion = Some 5,
            fecha_modificacion = Some 5\<rparr>,
      ReservaCreadaExitosamente)"
  by (simp add: crear_reserva_desde_admin_def objects_get_def truthy_def esta_disponible_def
      habitaciones_disponibles_def habitacion_set_def habitaciones_reservadas_def
      reserva_create_def save_def model_save_def Let_def ejemplos)




section \<open>Room generation\<close>

lemma random_choice_tipos: "random_choice k tipos_plazas \<in> set tipos_plazas"
  unfolding random_choice_def by (rule nth_mem) (simp add: tipos_plazas_def)

lemma generar_bucle:
  "\<exists>nuevas. foldl (generar_paso azar h) (d, c) is =
              (d\<lparr>habitaciones := habitaciones d @ nuevas,
                 sig_habitacion := sig_habitacion d + length is\<rparr>, c + int (length is)) \<and>
            map numero nuevas = map str is \<and>
            (\<forall>hb \<in> set nuevas. hab_hotel hb = h \<and> cantidad_plazas hb \<in> set tipos_plazas)"
proof (induction "is" arbitrary: d c)
  case Nil
  show ?case by simp
next
  case (Cons i "is")
  let ?hb = "\<lparr>hab_id = sig_habitacion d, hab_hotel = h, numero = str i,
               cantidad_plazas = random_choice (azar i) tipos_plazas\<rparr>"
  let ?d1 = "d\<lparr>habitaciones := habitaciones d @ [?hb], sig_habitacion := Suc (sig_habitacion d)\<rparr>"
  have paso: "generar_paso azar h (d, c) i = (?d1, c + 1)"
    by (simp add: generar_paso_def habitacion_create_def)
  from Cons.IH[of ?d1 "c + 1"] obtain nuevas where
    f: "foldl (generar_paso azar h) (?d1, c + 1) is =
          (?d1\<lparr>habitaciones := habitaciones ?d1 @ nuevas,
               sig_habitacion := sig_habitacion ?d1 + length is\<rparr>, c + 1 + int (length is))"
    and n: "map numero nuevas = map str is"
    and p: "\<forall>hb \<in> set nuevas. hab_hotel hb = h \<and> cantidad_plazas hb \<in> set tipos_plazas"
    by blast
  have "foldl (generar_paso azar h) (d, c) (i # is) =
          (d\<lparr>habitaciones := habitaciones d @ (?hb # nuevas),
             sig_habitacion := sig_habitacion d + length (i # is)\<rparr>, c + int (length (i # is)))"
    using paso f by simp
  moreover have "map numero (?hb # nuevas) = map str (i # is)" using n by simp
  moreover have "\<forall>hb \<in> set (?hb # nuevas). hab_hotel hb = h \<and> cantidad_plazas hb \<in> set tipos_plazas"
    using p random_choice_tipos by simp
  ultimately show ?case by blast
qed

lemma length_hasta: "length [1..n] = nat n"
  by simp

text \<open>
  C7, as the code has it: when the hotel has a room, \<open>generar_habitaciones\<close> creates
  nothing and returns the number of its rooms. Otherwise it creates one room for each
  number from 1 to \<open>cantidad_habitaciones\<close>, none when that is zero or negative, each
  with the next number as a string, the hotel as its hotel and a capacity from the list
  1, 2, 2, 3, 4, and returns how many it created. A second call creates nothing more,
  whatever it draws.
\<close>

theorem generar_habitaciones_exacto:
  "((\<exists>hb \<in> set (habitaciones d). hab_hotel hb = hotel_id self) \<longrightarrow>
      generar_habitaciones azar d self =
        (d, int (length (filter (\<lambda>hb. hab_hotel hb = hotel_id self) (habitaciones d))))) \<and>
   (\<not> (\<exists>hb \<in> set (habitaciones d). hab_hotel hb = hotel_id self) \<longrightarrow>
      (\<exists>nuevas. generar_habitaciones azar d self =
                  (d\<lparr>habitaciones := habitaciones d @ nuevas,
                     sig_habitacion := sig_habitacion d + length nuevas\<rparr>, int (length nuevas)) \<and>
                length nuevas = nat (cantidad_habitaciones self) \<and>
                map numero nuevas = map str [1..cantidad_habitaciones self] \<and>
                (\<forall>hb \<in> set nuevas. hab_hotel hb = hotel_id self \<and>
                                    cantidad_plazas hb \<in> set [1, 2, 2, 3, 4]))) \<and>
   fst (generar_habitaciones azar' (fst (generar_habitaciones azar d self)) self) =
     fst (generar_habitaciones azar d self)"
proof -
  let ?h = "hotel_id self" and ?n = "cantidad_habitaciones self"
  have a: "(\<exists>hb \<in> set (habitaciones d). hab_hotel hb = ?h) \<longrightarrow>
      generar_habitaciones azar d self =
        (d, int (length (filter (\<lambda>hb. hab_hotel hb = ?h) (habitaciones d))))"
    by (simp add: generar_habitaciones_def)
  have b: "\<exists>nuevas. generar_habitaciones azar d self =
                  (d\<lparr>habitaciones := habitaciones d @ nuevas,
                     sig_habitacion := sig_habitacion d + length nuevas\<rparr>, int (length nuevas)) \<and>
                length nuevas = nat ?n \<and>
                map numero nuevas = map str [1..?n] \<and>
                (\<forall>hb \<in> set nuevas. hab_hotel hb = ?h \<and> cantidad_plazas hb \<in> set [1, 2, 2, 3, 4])"
    if no: "\<not> (\<exists>hb \<in> set (habitaciones d). hab_hotel hb = ?h)"
  proof -
    from generar_bucle[of azar ?h d 0 "[1..?n]"] obtain nuevas where
      f: "foldl (generar_paso azar ?h) (d, 0) [1..?n] =
            (d\<lparr>habitaciones := habitaciones d @ nuevas,
               sig_habitacion := sig_habitacion d + length [1..?n]\<rparr>, 0 + int (length [1..?n]))"
      and n: "map numero nuevas = map str [1..?n]"
      and p: "\<forall>hb \<in> set nuevas. hab_hotel hb = ?h \<and> cantidad_plazas hb \<in> set tipos_plazas"
      by blast
    have l: "length nuevas = length [1..?n]" using n by (metis length_map)
    then have l': "length nuevas = nat ?n" by simp
    have "generar_habitaciones azar d self =
            (d\<lparr>habitaciones := habitaciones d @ nuevas,
               sig_habitacion := sig_habitacion d + length nuevas\<rparr>, int (length nuevas))"
      using no f l by (simp add: generar_habitaciones_def)
    then show ?thesis using l' n p unfolding tipos_plazas_def by blast
  qed
  have c: "fst (generar_habitaciones azar' (fst (generar_habitaciones azar d self)) self) =
     fst (generar_habitaciones azar d self)"
  proof (cases "\<exists>hb \<in> set (habitaciones d). hab_hotel hb = ?h")
    case True
    then show ?thesis by (simp add: generar_habitaciones_def)
  next
    case False
    from b[OF False] obtain nuevas where
      g: "generar_habitaciones azar d self =
            (d\<lparr>habitaciones := habitaciones d @ nuevas,
               sig_habitacion := sig_habitacion d + length nuevas\<rparr>, int (length nuevas))"
      and l: "length nuevas = nat ?n"
      and p: "\<forall>hb \<in> set nuevas. hab_hotel hb = ?h \<and> cantidad_plazas hb \<in> set [1, 2, 2, 3, 4]"
      by blast
    show ?thesis
    proof (cases "nuevas = []")
      case True
      then have "?n \<le> 0" using l by simp
      then have "[1..?n] = []" by simp
      then have "generar_habitaciones azar' d self = (d, 0)"
        using False by (simp add: generar_habitaciones_def)
      moreover have "fst (generar_habitaciones azar d self) = d" using g True by simp
      ultimately show ?thesis by simp
    next
      case ne: False
      then obtain hb where "hb \<in> set nuevas" by (cases nuevas) auto
      then have "\<exists>hb \<in> set (habitaciones d @ nuevas). hab_hotel hb = ?h" using p by auto
      then show ?thesis using g by (simp add: generar_habitaciones_def)
    qed
  qed
  from a b c show ?thesis by blast
qed


theorem generar_habitaciones_exacto_witness:
  "(\<exists>hb \<in> set (habitaciones db0). hab_hotel hb = hotel_id hotel1) \<and>
   generar_habitaciones (\<lambda>i. nat (3 * i)) db0 hotel1 = (db0, 2) \<and>
   \<not> (\<exists>hb \<in> set (habitaciones db_sin_habitaciones). hab_hotel hb = hotel_id hotel1) \<and>
   (\<exists>nuevas. generar_habitaciones (\<lambda>i. nat (3 * i)) db_sin_habitaciones hotel1 =
               (db_sin_habitaciones\<lparr>habitaciones := nuevas, sig_habitacion := 3\<rparr>, 2) \<and>
             length nuevas = 2 \<and> map numero nuevas = [''1'', ''2'']) \<and>
   fst (generar_habitaciones (\<lambda>i. 0)
          (fst (generar_habitaciones (\<lambda>i. nat (3 * i)) db_sin_habitaciones hotel1)) hotel1) =
     fst (generar_habitaciones (\<lambda>i. nat (3 * i)) db_sin_habitaciones hotel1)"
proof -
  have a: "\<exists>hb \<in> set (habitaciones db0). hab_hotel hb = hotel_id hotel1"
    by (simp add: ejemplos)
  have b: "\<not> (\<exists>hb \<in> set (habitaciones db_sin_habitaciones). hab_hotel hb = hotel_id hotel1)"
    by (simp add: ejemplos)
  have n: "cantidad_habitaciones hotel1 = 2" "habitaciones db_sin_habitaciones = []"
    "sig_habitacion db_sin_habitaciones = 1"
    "length (filter (\<lambda>hb. hab_hotel hb = hotel_id hotel1) (habitaciones db0)) = 2"
    by (simp_all add: ejemplos)
  have u: "[1..2] = [1, 2::int]" by (simp add: upto.simps)
  have s: "map str [1, 2] = [''1'', ''2'']" by (simp add: str_def)
  note t = generar_habitaciones_exacto[of db0 hotel1 "\<lambda>i. nat (3 * i)" "\<lambda>i. 0"]
    generar_habitaciones_exacto[of db_sin_habitaciones hotel1 "\<lambda>i. nat (3 * i)" "\<lambda>i. 0"]
  have 1: "generar_habitaciones (\<lambda>i. nat (3 * i)) db0 hotel1 = (db0, 2)"
    using t(1) a n by simp
  from t(2) b obtain nuevas where
    g: "generar_habitaciones (\<lambda>i. nat (3 * i)) db_sin_habitaciones hotel1 =
          (db_sin_habitaciones\<lparr>habitaciones := habitaciones db_sin_habitaciones @ nuevas,
             sig_habitacion := sig_habitacion db_sin_habitaciones + length nuevas\<rparr>,
           int (length nuevas))"
    and l: "length nuevas = nat (cantidad_habitaciones hotel1)"
    and m: "map numero nuevas = map str [1..cantidad_habitaciones hotel1]"
    by blast
  have l2: "length nuevas = 2" using l n(1) by simp
  have "generar_habitaciones (\<lambda>i. nat (3 * i)) db_sin_habitaciones hotel1 =
          (db_sin_habitaciones\<lparr>habitaciones := nuevas, sig_habitacion := 3\<rparr>, 2)"
    using g l2 n(2,3) by simp
  moreover have "map numero nuevas = [''1'', ''2'']" using m n(1) u s by simp
  ultimately have 2: "\<exists>nuevas. generar_habitaciones (\<lambda>i. nat (3 * i)) db_sin_habitaciones hotel1 =
               (db_sin_habitaciones\<lparr>habitaciones := nuevas, sig_habitacion := 3\<rparr>, 2) \<and>
             length nuevas = 2 \<and> map numero nuevas = [''1'', ''2'']"
    using l2 by (intro exI[of _ nuevas]) simp
  have 3: "fst (generar_habitaciones (\<lambda>i. 0)
          (fst (generar_habitaciones (\<lambda>i. nat (3 * i)) db_sin_habitaciones hotel1)) hotel1) =
     fst (generar_habitaciones (\<lambda>i. nat (3 * i)) db_sin_habitaciones hotel1)"
    using t(2) by blast
  from a b 1 2 3 show ?thesis by blast
qed

theorem generar_habitaciones_negativo_counterexample:
  "\<not> (\<exists>hb \<in> set (habitaciones db_sin_habitaciones). hab_hotel hb = hotel_id hotel_negativo) \<and>
   cantidad_habitaciones hotel_negativo = - 1 \<and>
   generar_habitaciones (\<lambda>i. 0) db_sin_habitaciones hotel_negativo = (db_sin_habitaciones, 0) \<and>
   int (length (habitaciones db_sin_habitaciones)) > cantidad_habitaciones hotel_negativo"
  by (simp add: generar_habitaciones_def ejemplos)


section \<open>Exclusivity is kept by the operations of the administration\<close>

lemma exclusividad_iff:
  "exclusividad d \<longleftrightarrow> (\<forall>hab fecha. length (ocupantes d hab fecha) \<le> 1)"
proof
  assume e: "exclusividad d"
  show "\<forall>hab fecha. length (ocupantes d hab fecha) \<le> 1"
  proof (intro allI)
    fix hab fecha
    show "length (ocupantes d hab fecha) \<le> 1"
    proof (cases "ocupantes d hab fecha")
      case Nil
      then show ?thesis by simp
    next
      case (Cons r rs)
      then have "r \<in> set (ocupantes d hab fecha)" by simp
      then have r: "r \<in> set (reservas d)" "habitacion_id r = Some hab" "fecha_reserva r = fecha"
        by (auto simp: ocupantes_def ocupa_def)
      from e r(1) have "case habitacion_id r of None \<Rightarrow> True
                        | Some hab \<Rightarrow> length (ocupantes d hab (fecha_reserva r)) \<le> 1"
        unfolding exclusividad_def by blast
      then show ?thesis using r(2,3) by simp
    qed
  qed
next
  assume "\<forall>hab fecha. length (ocupantes d hab fecha) \<le> 1"
  then show "exclusividad d"
    unfolding exclusividad_def by (auto split: option.splits)
qed

lemma cuenta_reemplazo:
  assumes "distinct (map f xs)"
  shows "length (filter P (map (\<lambda>x. if f x = k then r' else x) xs)) =
           length (filter (\<lambda>x. f x \<noteq> k \<and> P x) xs) +
           (if (\<exists>x \<in> set xs. f x = k) \<and> P r' then 1 else 0)"
  using assms
proof (induction xs)
  case Nil
  then show ?case by simp
next
  case (Cons x xs)
  then have d: "distinct (map f xs)" and n: "f x \<notin> f ` set xs" by auto
  show ?case
  proof (cases "f x = k")
    case True
    then have "\<not> (\<exists>y \<in> set xs. f y = k)" using n by (metis imageI)
    then show ?thesis using Cons.IH[OF d] True by simp
  next
    case False
    then show ?thesis using Cons.IH[OF d] by simp
  qed
qed

lemma cuenta_otros: "length (filter (\<lambda>x. f x \<noteq> k \<and> P x) xs) \<le> length (filter P xs)"
  by (induction xs) auto

lemma claves_ok_clave:
  assumes "claves_ok d" "x \<in> set (reservas d)"
  shows "\<exists>i. pk x = Some i \<and> 0 < i \<and> i < sig_reserva d"
  using assms unfolding claves_ok_def by (auto split: option.splits)

text \<open>Updating the row of a key.\<close>

lemma actualizar_conserva:
  assumes c: "claves_ok d" and e: "exclusividad d"
    and x: "x \<in> set (reservas d)" "pk x = Some i" and k: "pk r' = Some i"
    and libre: "\<And>hab. habitacion_id r' = Some hab \<Longrightarrow> estado r' \<in> {Confirmada, Pendiente} \<Longrightarrow>
                  \<forall>y \<in> set (reservas d). pk y \<noteq> Some i \<longrightarrow> \<not> ocupa hab (fecha_reserva r') y"
  defines "d' \<equiv> d\<lparr>reservas := map (\<lambda>y. if pk y = Some i then r' else y) (reservas d)\<rparr>"
  shows "claves_ok d' \<and> exclusividad d'"
proof
  have m: "map pk (reservas d') = map pk (reservas d)"
    using k by (auto simp: d'_def)
  have s: "set (reservas d') \<subseteq> insert r' (set (reservas d))" by (auto simp: d'_def)
  obtain j where "pk x = Some j" "0 < j" "j < sig_reserva d"
    using claves_ok_clave[OF c x(1)] by blast
  then have ki: "0 < i" "i < sig_reserva d" using x(2) by auto
  show "claves_ok d'"
    unfolding claves_ok_def
  proof (intro conjI ballI)
    show "distinct (map pk (reservas d'))"
      unfolding m using c by (simp add: claves_ok_def)
    show "0 < sig_reserva d'" using c by (simp add: d'_def claves_ok_def)
    fix y assume "y \<in> set (reservas d')"
    then have "y = r' \<or> y \<in> set (reservas d)" using s by auto
    moreover have "sig_reserva d' = sig_reserva d" by (simp add: d'_def)
    ultimately show "case pk y of None \<Rightarrow> False | Some i \<Rightarrow> 0 < i \<and> i < sig_reserva d'"
      using k ki claves_ok_clave[OF c, of y] by auto
  qed
  show "exclusividad d'"
    unfolding exclusividad_iff
  proof (intro allI)
    fix hab fecha
    have di: "distinct (map pk (reservas d))" using c by (simp add: claves_ok_def)
    have cnt: "length (ocupantes d' hab fecha) =
                 length (filter (\<lambda>y. pk y \<noteq> Some i \<and> ocupa hab fecha y) (reservas d)) +
                 (if ocupa hab fecha r' then 1 else 0)"
      using cuenta_reemplazo[OF di, of "ocupa hab fecha" "Some i" r'] x
      by (auto simp: ocupantes_def d'_def)
    show "length (ocupantes d' hab fecha) \<le> 1"
    proof (cases "ocupa hab fecha r'")
      case True
      then have "habitacion_id r' = Some hab" "estado r' \<in> {Confirmada, Pendiente}"
        "fecha_reserva r' = fecha"
        by (auto simp: ocupa_def)
      then have "\<forall>y \<in> set (reservas d). pk y \<noteq> Some i \<longrightarrow> \<not> ocupa hab fecha y"
        using libre by blast
      then have "filter (\<lambda>y. pk y \<noteq> Some i \<and> ocupa hab fecha y) (reservas d) = []"
        unfolding filter_empty_conv by blast
      then show ?thesis using cnt by simp
    next
      case False
      have "length (filter (\<lambda>y. pk y \<noteq> Some i \<and> ocupa hab fecha y) (reservas d))
              \<le> length (ocupantes d hab fecha)"
        unfolding ocupantes_def by (rule cuenta_otros)
      moreover have "length (ocupantes d hab fecha) \<le> 1"
        using e unfolding exclusividad_iff by blast
      ultimately show ?thesis using cnt False by simp
    qed
  qed
qed

text \<open>Inserting a row under the next key.\<close>

lemma insertar_conserva:
  assumes c: "claves_ok d" and e: "exclusividad d"
    and k: "pk r' = Some (sig_reserva d)"
    and libre: "\<And>hab. habitacion_id r' = Some hab \<Longrightarrow> esta_disponible d hab (fecha_reserva r')"
  defines "d' \<equiv> d\<lparr>reservas := reservas d @ [r'], sig_reserva := Suc (sig_reserva d)\<rparr>"
  shows "claves_ok d' \<and> exclusividad d'"
proof
  have nuevo: "Some (sig_reserva d) \<notin> pk ` set (reservas d)"
  proof
    assume "Some (sig_reserva d) \<in> pk ` set (reservas d)"
    then obtain y where "y \<in> set (reservas d)" "pk y = Some (sig_reserva d)" by auto
    then show False using claves_ok_clave[OF c] by fastforce
  qed
  show "claves_ok d'"
    unfolding claves_ok_def
  proof (intro conjI ballI)
    show "distinct (map pk (reservas d'))"
      using c nuevo k by (simp add: d'_def claves_ok_def)
    show "0 < sig_reserva d'" by (simp add: d'_def)
    fix y assume "y \<in> set (reservas d')"
    then have "y = r' \<or> y \<in> set (reservas d)" by (auto simp: d'_def)
    then show "case pk y of None \<Rightarrow> False | Some i \<Rightarrow> 0 < i \<and> i < sig_reserva d'"
      using k c claves_ok_clave[OF c] by (fastforce simp: d'_def claves_ok_def)
  qed
  show "exclusividad d'"
    unfolding exclusividad_iff
  proof (intro allI)
    fix hab fecha
    have cnt: "length (ocupantes d' hab fecha) =
                 length (ocupantes d hab fecha) + (if ocupa hab fecha r' then 1 else 0)"
      by (simp add: ocupantes_def d'_def)
    show "length (ocupantes d' hab fecha) \<le> 1"
    proof (cases "ocupa hab fecha r'")
      case True
      then have "esta_disponible d hab fecha" using libre by (auto simp: ocupa_def)
      then have "ocupantes d hab fecha = []"
        unfolding esta_disponible_def ocupantes_def ocupa_def by (simp add: filter_empty_conv)
      then show ?thesis using cnt by simp
    next
      case False
      then show ?thesis using cnt e unfolding exclusividad_iff by simp
    qed
  qed
qed



lemma reloj_no_cuenta:
  "claves_ok (d\<lparr>reloj := t\<rparr>) = claves_ok d"
  "exclusividad (d\<lparr>reloj := t\<rparr>) = exclusividad d"
  by (simp_all add: claves_ok_def exclusividad_def ocupantes_def cong: option.case_cong)

lemma model_save_clave:
  assumes "x \<in> set (reservas d)" "pk x = Some i" "pk r' = Some i"
  shows "model_save d r' =
           (d\<lparr>reservas := map (\<lambda>y. if pk y = Some i
                                      then r'\<lparr>fecha_modificacion := Some (reloj d)\<rparr> else y)
                             (reservas d),
              reloj := Suc (reloj d)\<rparr>,
            r'\<lparr>fecha_modificacion := Some (reloj d)\<rparr>)"
proof -
  have "\<exists>y \<in> set (reservas d). pk y = Some i" using assms(1,2) by blast
  then show ?thesis using assms(3) by (simp add: model_save_def Let_def)
qed

lemma save_conserva:
  assumes c: "claves_ok d" and e: "exclusividad d"
    and x: "x \<in> set (reservas d)" "pk x = pk r'"
    and p: "\<And>hab. estado r' = Pendiente \<Longrightarrow> habitacion_id r' = Some hab \<Longrightarrow>
              esta_disponible d hab (fecha_reserva r')"
    and s: "save d r' = Inr (d', y)"
  shows "claves_ok d' \<and> exclusividad d' \<and> map pk (reservas d') = map pk (reservas d)"
proof -
  let ?r = "r'\<lparr>fecha_modificacion := Some (reloj d)\<rparr>"
  let ?d = "d\<lparr>reservas := map (\<lambda>y. if pk y = Some i then ?r else y) (reservas d)\<rparr>"
  obtain i where i: "pk x = Some i" "0 < i" using claves_ok_clave[OF c x(1)] by blast
  then have k: "pk r' = Some i" using x(2) by simp
  then have k': "pk ?r = Some i" by simp
  have ms: "model_save d r' =
              (d\<lparr>reservas := map (\<lambda>y. if pk y = Some i then ?r else y) (reservas d),
                 reloj := Suc (reloj d)\<rparr>, ?r)"
    using x(1) i(1) k by (rule model_save_clave)
  have d': "d' = (d\<lparr>reservas := map (\<lambda>y. if pk y = Some i then ?r else y) (reservas d)\<rparr>)
                   \<lparr>reloj := Suc (reloj d)\<rparr>"
    using s ms by (auto simp: save_def split: if_splits)
  have libre: "\<forall>z \<in> set (reservas d). pk z \<noteq> Some i \<longrightarrow> \<not> ocupa hab (fecha_reserva ?r) z"
    if h: "habitacion_id ?r = Some hab" and a: "estado ?r \<in> {Confirmada, Pendiente}" for hab
  proof (cases "estado r' = Confirmada")
    case True
    then have "reservas_conflictivas d r' = []"
      using s h k i(2) by (auto simp: save_def truthy_def split: if_splits)
    then show ?thesis
      using h k unfolding reservas_conflictivas_def filter_filter filter_empty_conv ocupa_def
      by auto
  next
    case False
    then have "estado r' = Pendiente" using a by auto
    then have "esta_disponible d hab (fecha_reserva r')" using p h by simp
    then show ?thesis unfolding esta_disponible_def ocupa_def by auto
  qed
  have "claves_ok (d\<lparr>reservas := map (\<lambda>y. if pk y = Some i then ?r else y) (reservas d)\<rparr>) \<and>
        exclusividad (d\<lparr>reservas := map (\<lambda>y. if pk y = Some i then ?r else y) (reservas d)\<rparr>)"
    using c e x(1) i(1) k' libre by (rule actualizar_conserva)
  then have "claves_ok d' \<and> exclusividad d'"
    unfolding d' reloj_no_cuenta .
  moreover have "map pk (reservas d') = map pk (reservas d)"
    unfolding d' using k by auto
  ultimately show ?thesis by simp
qed

lemma confirmar_reservas_conserva:
  assumes "claves_ok d" "exclusividad d"
    and "\<forall>r \<in> set qs. pk r \<in> pk ` set (reservas d)"
  shows "claves_ok (fst (confirmar_reservas d qs)) \<and> exclusividad (fst (confirmar_reservas d qs))"
  using assms
proof (induction qs arbitrary: d)
  case Nil
  then show ?case by simp
next
  case (Cons r qs)
  show ?case
  proof (cases "estado r \<noteq> Confirmada")
    case False
    then show ?thesis using Cons by simp
  next
    case True
    show ?thesis
    proof (cases "save d (r\<lparr>estado := Confirmada\<rparr>)")
      case (Inl err)
      then show ?thesis using True Cons.prems by simp
    next
      case (Inr res)
      obtain d' y where res: "res = (d', y)" by (cases res)
      obtain x where x: "x \<in> set (reservas d)" "pk x = pk (r\<lparr>estado := Confirmada\<rparr>)"
        using Cons.prems(3) by auto
      have "claves_ok d' \<and> exclusividad d' \<and> map pk (reservas d') = map pk (reservas d)"
        using Cons.prems(1,2) x _ Inr[unfolded res] by (rule save_conserva) simp
      then have i: "claves_ok d'" "exclusividad d'"
        and m: "set (map pk (reservas d')) = set (map pk (reservas d))" by simp_all
      have "\<forall>r \<in> set qs. pk r \<in> pk ` set (reservas d')"
        using Cons.prems(3) m by simp
      then have "claves_ok (fst (confirmar_reservas d' qs)) \<and>
                 exclusividad (fst (confirmar_reservas d' qs))"
        using Cons.IH i by blast
      then show ?thesis using True Inr res by (auto split: prod.splits)
    qed
  qed
qed

lemma cancelar_reservas_conserva:
  assumes "claves_ok d" "exclusividad d"
    and "\<forall>r \<in> set qs. pk r \<in> pk ` set (reservas d)"
  shows "claves_ok (fst (cancelar_reservas d qs)) \<and> exclusividad (fst (cancelar_reservas d qs))"
  using assms
proof (induction qs arbitrary: d)
  case Nil
  then show ?case by simp
next
  case (Cons r qs)
  show ?case
  proof (cases "estado r \<noteq> Cancelada")
    case False
    then show ?thesis using Cons by simp
  next
    case True
    show ?thesis
    proof (cases "save d (r\<lparr>estado := Cancelada\<rparr>)")
      case (Inl err)
      then show ?thesis using True Cons.prems by simp
    next
      case (Inr res)
      obtain d' y where res: "res = (d', y)" by (cases res)
      obtain x where x: "x \<in> set (reservas d)" "pk x = pk (r\<lparr>estado := Cancelada\<rparr>)"
        using Cons.prems(3) by auto
      have "claves_ok d' \<and> exclusividad d' \<and> map pk (reservas d') = map pk (reservas d)"
        using Cons.prems(1,2) x _ Inr[unfolded res] by (rule save_conserva) simp
      then have i: "claves_ok d'" "exclusividad d'"
        and m: "set (map pk (reservas d')) = set (map pk (reservas d))" by simp_all
      have "\<forall>r \<in> set qs. pk r \<in> pk ` set (reservas d')"
        using Cons.prems(3) m by simp
      then have "claves_ok (fst (cancelar_reservas d' qs)) \<and>
                 exclusividad (fst (cancelar_reservas d' qs))"
        using Cons.IH i by blast
      then show ?thesis using True Inr res by (auto split: prod.splits)
    qed
  qed
qed



lemma crear_casos:
  assumes "P d"
    and "\<And>(r :: reserva) t. pk r = Some (sig_reserva d) \<Longrightarrow>
           \<exists>hab. habitacion_id r = Some hab \<and> esta_disponible d hab (fecha_reserva r) \<Longrightarrow>
           P (d\<lparr>reservas := reservas d @ [r], sig_reserva := Suc (sig_reserva d),
                reloj := t\<rparr>)"
  shows "P (fst (crear_reserva_desde_admin d hu fecha personas h hab_opt))"
  unfolding crear_reserva_desde_admin_def reserva_create_def save_def model_save_def
  by (auto simp: assms(1) Let_def truthy_def split: sum.splits list.splits intro!: assms(2))

lemma crear_conserva:
  assumes c: "claves_ok d" and e: "exclusividad d"
  shows "claves_ok (fst (crear_reserva_desde_admin d hu fecha personas h hab_opt)) \<and>
         exclusividad (fst (crear_reserva_desde_admin d hu fecha personas h hab_opt))"
proof (rule crear_casos)
  show "claves_ok d \<and> exclusividad d" using c e by simp
next
  fix r :: reserva and t
  assume k: "pk r = Some (sig_reserva d)"
    and a: "\<exists>hab. habitacion_id r = Some hab \<and> esta_disponible d hab (fecha_reserva r)"
  have "claves_ok (d\<lparr>reservas := reservas d @ [r], sig_reserva := Suc (sig_reserva d)\<rparr>) \<and>
        exclusividad (d\<lparr>reservas := reservas d @ [r], sig_reserva := Suc (sig_reserva d)\<rparr>)"
    using c e k by (rule insertar_conserva) (use a in auto)
  then show "claves_ok (d\<lparr>reservas := reservas d @ [r], sig_reserva := Suc (sig_reserva d),
                          reloj := t\<rparr>) \<and>
             exclusividad (d\<lparr>reservas := reservas d @ [r], sig_reserva := Suc (sig_reserva d),
                             reloj := t\<rparr>)"
    unfolding reloj_no_cuenta .
qed

lemma confirmar_reserva_conserva:
  assumes c: "claves_ok d" and e: "exclusividad d"
    and r: "confirmar_reserva d i = Inr (d', m)"
  shows "claves_ok d' \<and> exclusividad d'"
proof -
  have "d' = d \<or> (\<exists>x y. get_reserva d i = Inr x \<and> save d (x\<lparr>estado := Confirmada\<rparr>) = Inr (d', y))"
    using r unfolding confirmar_reserva_def
    by (auto simp: Let_def split: sum.splits option.splits if_splits)
  then show ?thesis
  proof
    assume "d' = d"
    then show ?thesis using c e by simp
  next
    assume "\<exists>x y. get_reserva d i = Inr x \<and> save d (x\<lparr>estado := Confirmada\<rparr>) = Inr (d', y)"
    then obtain x y where g: "get_reserva d i = Inr x"
      and s: "save d (x\<lparr>estado := Confirmada\<rparr>) = Inr (d', y)" by blast
    have x: "x \<in> set (reservas d)" "pk x = pk (x\<lparr>estado := Confirmada\<rparr>)"
      using g get_reserva_mem by simp_all
    have "claves_ok d' \<and> exclusividad d' \<and> map pk (reservas d') = map pk (reservas d)"
      using c e x _ s by (rule save_conserva) simp
    then show ?thesis by simp
  qed
qed

lemma cancelar_reserva_conserva:
  assumes c: "claves_ok d" and e: "exclusividad d"
    and r: "cancelar_reserva d i = Inr (d', m)"
  shows "claves_ok d' \<and> exclusividad d'"
proof -
  have "\<exists>x y. get_reserva d i = Inr x \<and> save d (x\<lparr>estado := Cancelada\<rparr>) = Inr (d', y)"
    using r unfolding cancelar_reserva_def
    by (auto split: sum.splits)
  then obtain x y where g: "get_reserva d i = Inr x"
    and s: "save d (x\<lparr>estado := Cancelada\<rparr>) = Inr (d', y)" by blast
  have x: "x \<in> set (reservas d)" "pk x = pk (x\<lparr>estado := Cancelada\<rparr>)"
    using g get_reserva_mem by simp_all
  have "claves_ok d' \<and> exclusividad d' \<and> map pk (reservas d') = map pk (reservas d)"
    using c e x _ s by (rule save_conserva) simp
  then show ?thesis by simp
qed

lemma cambiar_casos:
  assumes "P d"
    and "\<And>x (nueva :: habitacion) d' y. get_reserva d i = Inr x \<Longrightarrow>
           esta_disponible d (hab_id nueva) (fecha_reserva x) \<Longrightarrow>
           save d (x\<lparr>habitacion_id := Some (hab_id nueva)\<rparr>) = Inr (d', y) \<Longrightarrow> P d'"
  shows "P (fst (cambiar_habitacion_reserva d i hab))"
  unfolding cambiar_habitacion_reserva_def
  by (auto simp: assms(1) split: sum.splits) (rule assms(2), assumption+)

lemma cambiar_habitacion_reserva_conserva:
  assumes c: "claves_ok d" and e: "exclusividad d"
  shows "claves_ok (fst (cambiar_habitacion_reserva d i hab)) \<and>
         exclusividad (fst (cambiar_habitacion_reserva d i hab))"
proof (rule cambiar_casos)
  show "claves_ok d \<and> exclusividad d" using c e by simp
next
  fix x and nueva :: habitacion and d' y
  assume g: "get_reserva d i = Inr x"
    and a: "esta_disponible d (hab_id nueva) (fecha_reserva x)"
    and s: "save d (x\<lparr>habitacion_id := Some (hab_id nueva)\<rparr>) = Inr (d', y)"
  have x: "x \<in> set (reservas d)" "pk x = pk (x\<lparr>habitacion_id := Some (hab_id nueva)\<rparr>)"
    using g get_reserva_mem by simp_all
  have "claves_ok d' \<and> exclusividad d' \<and> map pk (reservas d') = map pk (reservas d)"
    using c e x _ s by (rule save_conserva) (use a in simp)
  then show "claves_ok d' \<and> exclusividad d'" by simp
qed

lemma seleccion_claves: "\<forall>r \<in> set (seleccion d ids). pk r \<in> pk ` set (reservas d)"
  by (auto simp: seleccion_def)

lemma ejecutar_conserva:
  assumes "claves_ok d" "exclusividad d"
  shows "claves_ok (ejecutar d op) \<and> exclusividad (ejecutar d op)"
proof (cases op)
  case (Crear hu fecha personas h hab)
  then show ?thesis using crear_conserva[OF assms] by simp
next
  case (Confirmar i)
  then show ?thesis
    using confirmar_reserva_conserva[OF assms] assms by (auto split: sum.splits)
next
  case (ConfirmarSeleccion ids)
  then show ?thesis
    using confirmar_reservas_conserva[OF assms seleccion_claves] by simp
next
  case (ConfirmarMasiva ids)
  then show ?thesis
    using assms by (simp add: confirmar_reserva_masiva_def bucle_sin_cambios)
next
  case (Cancelar i)
  then show ?thesis
    using cancelar_reserva_conserva[OF assms] assms by (auto split: sum.splits)
next
  case (CancelarSeleccion ids)
  then show ?thesis
    using cancelar_reservas_conserva[OF assms seleccion_claves] by simp
next
  case (Reasignar i hab)
  then show ?thesis using cambiar_habitacion_reserva_conserva[OF assms] by simp
qed

lemma crear_rechaza_ocupada:
  assumes "0 < hab" "\<not> esta_disponible d hab fecha"
  shows "\<exists>m. crear_reserva_desde_admin d hu fecha personas h (Some hab) = (d, None, m)"
proof -
  have "hab_id hb = hab" if "get_habitacion d hab = Inr hb" for hb
    using that objects_get_mem unfolding get_habitacion_def by fastforce
  then show ?thesis
    using assms unfolding crear_reserva_desde_admin_def
    by (auto simp: truthy_def split: sum.splits)
qed

text \<open>
  C1, as the code has it: from a database with well-formed keys in which every room has
  at most one active reservation on every date, every sequence of the administration's
  operations (create from the admin, confirm, cancel, reassign with
  \<open>cambiar_habitacion_reserva\<close>) leads to such a database; and
  \<open>crear_reserva_desde_admin\<close>, given a room that an active reservation holds on the
  date, creates nothing. The check is the one of these operations: \<open>save\<close> alone checks
  no object without key.
\<close>

theorem exclusividad_se_conserva:
  assumes "claves_ok d" "exclusividad d"
  shows "claves_ok (foldl ejecutar d ops) \<and> exclusividad (foldl ejecutar d ops) \<and>
         (0 < hab \<and> \<not> esta_disponible d hab fecha \<longrightarrow>
            (\<exists>m. crear_reserva_desde_admin d hu fecha personas h (Some hab) = (d, None, m)))"
proof -
  have "claves_ok (foldl ejecutar d ops) \<and> exclusividad (foldl ejecutar d ops)"
    using assms
  proof (induction ops arbitrary: d)
    case Nil
    then show ?case by simp
  next
    case (Cons op ops)
    have "claves_ok (ejecutar d op) \<and> exclusividad (ejecutar d op)"
      using Cons.prems by (rule ejecutar_conserva)
    then show ?case using Cons.IH by simp
  qed
  then show ?thesis using crear_rechaza_ocupada by blast
qed


theorem exclusividad_se_conserva_witness:
  "claves_ok db1 \<and> exclusividad db1 \<and>
   claves_ok (foldl ejecutar db1
                [Crear 1 100 2 1 None, Cancelar 1, Confirmar 1, Reasignar 2 1]) \<and>
   exclusividad (foldl ejecutar db1
                   [Crear 1 100 2 1 None, Cancelar 1, Confirmar 1, Reasignar 2 1]) \<and>
   \<not> esta_disponible db1 1 100 \<and>
   (\<exists>m. crear_reserva_desde_admin db1 1 100 2 1 (Some 1) = (db1, None, m))"
proof -
  have c: "claves_ok db1" by (simp add: claves_ok_def ejemplos)
  have e: "exclusividad db1" by (simp add: exclusividad_def ocupantes_def ocupa_def ejemplos)
  have o: "\<not> esta_disponible db1 1 100" by (simp add: esta_disponible_def ejemplos)
  show ?thesis
    using exclusividad_se_conserva[OF c e,
        of "[Crear 1 100 2 1 None, Cancelar 1, Confirmar 1, Reasignar 2 1]" 1 100 1 2 1] c e o
    by simp
qed

theorem reserva_nueva_sin_comprobar_counterexample:
  "claves_ok db1 \<and> exclusividad db1 \<and> \<not> esta_disponible db1 1 100 \<and>
   reserva_create db1 1 100 2 (Some 1) Confirmada =
     Inr (db1\<lparr>reservas := [res1, res_doble], sig_reserva := 3, reloj := 6\<rparr>, res_doble) \<and>
   \<not> exclusividad (db1\<lparr>reservas := [res1, res_doble], sig_reserva := 3, reloj := 6\<rparr>) \<and>
   completar_reserva db1 100 2 1 1 ''Ana'' ''ana@example.org'' ''555'' =
     Inr (db1\<lparr>reservas := [res1, res_doble\<lparr>estado := Pendiente\<rparr>], sig_reserva := 3,
              reloj := 6\<rparr>,
          res_doble\<lparr>estado := Pendiente\<rparr>) \<and>
   \<not> exclusividad (db1\<lparr>reservas := [res1, res_doble\<lparr>estado := Pendiente\<rparr>],
                        sig_reserva := 3, reloj := 6\<rparr>)"
  by (simp add: claves_ok_def exclusividad_def ocupantes_def ocupa_def esta_disponible_def
      reserva_create_def save_def truthy_def model_save_def Let_def completar_reserva_def
      get_object_or_404_def objects_get_def buscar_o_crear_huesped_def get_or_create_def
      ejemplos)

end
